theory Spec2Isabelle
  imports Complex_Main "HOL-Library.Multiset"
begin

section \<open>Python strings\<close>

text \<open>
  A Python \<open>str\<close> is modelled as a HOL \<open>string\<close>; the character with code \<open>n\<close> stands
  for the code point \<open>n\<close>, so the model covers the strings over the code points 0 to 255.
  On that range \<open>str.isspace\<close> and the regular expression class \<open>\s\<close> hold of the code
  points 9 to 13, 28 to 32, 133 and 160.
\<close>

definition isspace :: "char \<Rightarrow> bool" where
  "isspace c = (let n = (of_char c :: nat) in
     (9 \<le> n \<and> n \<le> 13) \<or> (28 \<le> n \<and> n \<le> 32) \<or> n = 133 \<or> n = 160)"

text \<open>\<open>s.strip()\<close>: drop the leading and the trailing whitespace.\<close>

definition strip :: "string \<Rightarrow> string" where
  "strip s = rev (dropWhile isspace (rev (dropWhile isspace s)))"

section \<open>\<open>utils.clean_extracted_text\<close>\<close>

text \<open>\<open>re.sub(r'\s+', ' ', text)\<close>: every maximal run of whitespace becomes one space.\<close>

function sub_ws_runs :: "string \<Rightarrow> string" where
  "sub_ws_runs [] = []"
| "sub_ws_runs (c # cs) =
     (if isspace c then CHR '' '' # sub_ws_runs (dropWhile isspace cs)
      else c # sub_ws_runs cs)"
  by pat_completeness auto
termination
  by (relation "measure length") (auto simp: length_dropWhile_le less_Suc_eq_le)

text \<open>\<open>re.sub(r'[^\x20-\x7E\n\t]', '', text)\<close>: keep the printable ASCII characters,
  the newline and the tab.\<close>

definition printable :: "char \<Rightarrow> bool" where
  "printable c = (let n = (of_char c :: nat) in (32 \<le> n \<and> n \<le> 126) \<or> n = 10 \<or> n = 9)"

definition sub_non_printable :: "string \<Rightarrow> string" where
  "sub_non_printable s = filter printable s"

text \<open>
  \<open>re.sub(r'\n\s*\n', '\n\n', text)\<close>: at a newline, the greedy \<open>\s*\<close> runs over the
  whitespace that follows and backtracks to its last newline; the match, from the first
  newline to that one, becomes two newlines and the scan goes on behind it.
\<close>

definition upto_last_newline :: "string \<Rightarrow> string" where
  "upto_last_newline ws = rev (dropWhile (\<lambda>c. c \<noteq> CHR 0x0A) (rev ws))"

function sub_blank_lines :: "string \<Rightarrow> string" where
  "sub_blank_lines [] = []"
| "sub_blank_lines (c # cs) =
     (if c = CHR 0x0A \<and> upto_last_newline (takeWhile isspace cs) \<noteq> []
      then CHR 0x0A # CHR 0x0A #
           sub_blank_lines (drop (length (upto_last_newline (takeWhile isspace cs))) cs)
      else c # sub_blank_lines cs)"
  by pat_completeness auto
termination
  by (relation "measure length") auto

definition clean_extracted_text :: "string \<Rightarrow> string" where
  "clean_extracted_text text =
     (if text = [] then []
      else strip (sub_blank_lines (sub_non_printable (sub_ws_runs text))))"


section \<open>Python exceptions\<close>

text \<open>
  A raised exception is a value: a function that can raise returns \<open>exn + 'a\<close>, with the
  exception on the left. Every constructor stands for a subclass of \<open>Exception\<close>; the
  argument is the message.
\<close>

datatype exn =
    KeyError string
  | AttributeError string
  | NameError string
  | LookupError string
  | IndexError string
  | TypeError string
  | ValueError string
  | OverflowError string
  | RecursionError string
  | RequestException string
  | IntegrityError string
  | OperationalError string
  | Exception string

text \<open>\<open>str(n)\<close> for an integer.\<close>

fun str_nat :: "nat \<Rightarrow> string" where
  "str_nat n = (if n < 10 then [char_of (48 + n)] else str_nat (n div 10) @ [char_of (48 + n mod 10)])"

definition str_int :: "int \<Rightarrow> string" where
  "str_int i = (if i < 0 then CHR ''-'' # str_nat (nat (- i)) else str_nat (nat i))"

text \<open>The messages of an \<open>AttributeError\<close> and of a \<open>NameError\<close>, with Python's
  quotes.\<close>

definition no_attribute :: "string \<Rightarrow> string \<Rightarrow> exn" where
  "no_attribute ty attr =
     AttributeError ([CHR 0x27] @ ty @ [CHR 0x27] @ '' object has no attribute ''
                     @ [CHR 0x27] @ attr @ [CHR 0x27])"

definition name_not_defined :: "string \<Rightarrow> exn" where
  "name_not_defined name = NameError (''name '' @ [CHR 0x27] @ name @ [CHR 0x27] @ '' is not defined'')"

section \<open>More of \<open>str\<close>\<close>

text \<open>\<open>s.split()\<close>: the maximal runs of characters that are not whitespace. The first
  argument of \<open>split_acc\<close> is the word read so far, reversed.\<close>

fun split_acc :: "string \<Rightarrow> string \<Rightarrow> string list" where
  "split_acc w [] = (if w = [] then [] else [rev w])"
| "split_acc w (c # cs) =
     (if isspace c then (if w = [] then split_acc [] cs else rev w # split_acc [] cs)
      else split_acc (c # w) cs)"

definition split_ws :: "string \<Rightarrow> string list" where
  "split_ws s = split_acc [] s"

text \<open>\<open>s.lower()\<close> on the code points below 256: the letters A to Z and the upper-case
  letters of Latin-1 (192 to 222 without the multiplication sign 215) move up by 32.\<close>

definition lower_char :: "char \<Rightarrow> char" where
  "lower_char c = (let n = (of_char c :: nat) in
     if (65 \<le> n \<and> n \<le> 90) \<or> (192 \<le> n \<and> n \<le> 222 \<and> n \<noteq> 215) then char_of (n + 32) else c)"

definition lower :: "string \<Rightarrow> string" where
  "lower s = map lower_char s"

text \<open>\<open>s.startswith(p)\<close> and the substring test \<open>p in s\<close>.\<close>

definition startswith :: "string \<Rightarrow> string \<Rightarrow> bool" where
  "startswith s p = (take (length p) s = p)"

fun contains :: "string \<Rightarrow> string \<Rightarrow> bool" where
  "contains [] p = (p = [])"
| "contains (c # cs) p = (startswith (c # cs) p \<or> contains cs p)"

text \<open>\<open>re.search(r'\d+', s)\<close> finds a match exactly when \<open>s\<close> has a decimal digit; below
  256 the digits are 0 to 9.\<close>

definition isdigit :: "char \<Rightarrow> bool" where
  "isdigit c = (let n = (of_char c :: nat) in 48 \<le> n \<and> n \<le> 57)"

definition search_digits :: "string \<Rightarrow> bool" where
  "search_digits s = list_ex isdigit s"

section \<open>\<open>utils.calculate_sentence_importance\<close> and \<open>utils.rank_sentences_by_importance\<close>\<close>

text \<open>
  \<open>HAS_NLTK\<close> is set when the module is imported and \<open>word_tokenize\<close> is NLTK's function:
  both are parameters. The score is a Python float; every value it takes is a multiple
  of 0.5 of small magnitude, which binary floating point represents and adds exactly, so
  the score is modelled as a real number.
\<close>

definition importance_keywords :: "string list" where
  "importance_keywords =
     [''important'', ''significant'', ''crucial'', ''essential'', ''key'', ''main'', ''primary'',
      ''fundamental'', ''critical'', ''major'', ''principal'', ''central'', ''vital'']"

definition definition_indicators :: "string list" where
  "definition_indicators =
     ['' is '', '' are '', '' means '', '' refers to '', '' defined as '', '' known as '']"

definition causal_words :: "string list" where
  "causal_words = [''because'', ''therefore'', ''thus'', ''consequently'', ''as a result'', ''due to'']"

text \<open>\<open>for k in ks: if k in sentence.lower(): score += d\<close>\<close>

definition add_for_each :: "string list \<Rightarrow> real \<Rightarrow> string \<Rightarrow> real \<Rightarrow> real" where
  "add_for_each ks d sentence score =
     foldl (\<lambda>sc k. if contains (lower sentence) k then sc + d else sc) score ks"

definition count_words :: "bool \<Rightarrow> (string \<Rightarrow> exn + string list) \<Rightarrow> string \<Rightarrow> nat" where
  "count_words HAS_NLTK word_tokenize sentence =
     (if HAS_NLTK then
        (case word_tokenize sentence of
           Inr ws \<Rightarrow> length ws
         | Inl e \<Rightarrow> length (split_ws sentence))
      else length (split_ws sentence))"

definition calculate_sentence_importance ::
  "bool \<Rightarrow> (string \<Rightarrow> exn + string list) \<Rightarrow> string \<Rightarrow> real" where
  "calculate_sentence_importance HAS_NLTK word_tokenize sentence0 =
     (if sentence0 = [] \<or> strip sentence0 = [] then 0
      else
        let sentence = strip sentence0;
            word_count = count_words HAS_NLTK word_tokenize sentence;
            score = 0;
            score = (if 10 \<le> word_count \<and> word_count \<le> 25 then score + 2
                     else if 8 \<le> word_count \<and> word_count \<le> 30 then score + 1
                     else score);
            score = add_for_each importance_keywords 1.5 sentence score;
            score = add_for_each definition_indicators 1 sentence score;
            score = (if search_digits sentence then score + 0.5 else score);
            score = add_for_each causal_words 1 sentence score;
            score = (if word_count < 5 \<or> 40 < word_count then score - 1 else score)
        in max 0 score)"

text \<open>
  \<open>scored_sentences.sort(key=lambda x: x[1], reverse=True)\<close>: the sort is stable and
  \<open>reverse=True\<close> keeps the original order of the entries with equal keys; CPython
  reverses the list, sorts it in ascending order and reverses it again.
\<close>

definition sort_reverse :: "('a \<Rightarrow> 'k::linorder) \<Rightarrow> 'a list \<Rightarrow> 'a list" where
  "sort_reverse key xs = rev (sort_key key (rev xs))"

definition rank_sentences_by_importance ::
  "bool \<Rightarrow> (string \<Rightarrow> exn + string list) \<Rightarrow> string list \<Rightarrow> string list" where
  "rank_sentences_by_importance HAS_NLTK word_tokenize sentences =
     (if sentences = [] then []
      else
        let scored_sentences =
              map (\<lambda>sentence. (strip sentence,
                      calculate_sentence_importance HAS_NLTK word_tokenize sentence))
                  (filter (\<lambda>sentence. strip sentence \<noteq> []) sentences)
        in map fst (sort_reverse snd scored_sentences))"

section \<open>\<open>models.update_flashcard_performance\<close>\<close>

text \<open>
  A point in time (\<open>datetime\<close>) is the number of microseconds since
  \<open>datetime.min\<close>, the first instant of the year 1.
\<close>

type_synonym datetime = int

text \<open>
  A row of the table \<open>flashcards\<close>. The table is a map from the primary key to the row.
  \<open>mastery_level\<close> is a Python float; the model computes it in the real numbers.
\<close>

record flashcard =
  flashcard_user_id :: int
  flashcard_question :: string
  flashcard_answer :: string
  flashcard_topic :: string
  flashcard_difficulty :: string
  times_reviewed :: int
  times_correct :: int
  last_reviewed :: "datetime option"
  mastery_level :: real

type_synonym flashcards = "int \<rightharpoonup> flashcard"

text \<open>
  \<open>utcnow\<close> is the clock reading of the call. \<open>commit\<close> is what \<open>db.session.commit()\<close>
  does: \<open>None\<close> when it succeeds, the exception when it fails, and then the table keeps
  its rows.
\<close>

definition update_flashcard_performance ::
  "datetime \<Rightarrow> exn option \<Rightarrow> flashcards \<Rightarrow> int \<Rightarrow> bool \<Rightarrow> exn + (flashcards \<times> flashcard option)" where
  "update_flashcard_performance utcnow commit table flashcard_id correct =
     (case table flashcard_id of
        None \<Rightarrow> Inr (table, None)
      | Some flashcard0 \<Rightarrow>
          let flashcard = flashcard0\<lparr>times_reviewed := times_reviewed flashcard0 + 1\<rparr>;
              flashcard = (if correct
                           then flashcard\<lparr>times_correct := times_correct flashcard + 1\<rparr>
                           else flashcard);
              flashcard =
                (if times_reviewed flashcard > 0 then
                   let accuracy = real_of_int (times_correct flashcard)
                                  / real_of_int (times_reviewed flashcard)
                   in flashcard\<lparr>mastery_level :=
                        min 1 (accuracy * (real_of_int (times_reviewed flashcard) / 10))\<rparr>
                 else flashcard);
              flashcard = flashcard\<lparr>last_reviewed := Some utcnow\<rparr>
          in (case commit of
                Some e \<Rightarrow> Inl e
              | None \<Rightarrow> Inr (table(flashcard_id \<mapsto> flashcard), Some flashcard)))"

text \<open>A review is one call: the clock, the outcome of the commit, the key and the
  answer's correctness. A failed call leaves the table as it was.\<close>

type_synonym review = "datetime \<times> exn option \<times> int \<times> bool"

fun review_all :: "flashcards \<Rightarrow> review list \<Rightarrow> flashcards" where
  "review_all table [] = table"
| "review_all table ((utcnow, commit, flashcard_id, correct) # rs) =
     (case update_flashcard_performance utcnow commit table flashcard_id correct of
        Inl e \<Rightarrow> review_all table rs
      | Inr (table', result) \<Rightarrow> review_all table' rs)"

text \<open>The consistency of the review metrics of a row.\<close>

definition metrics_consistent :: "flashcard \<Rightarrow> bool" where
  "metrics_consistent f =
     (0 \<le> times_correct f \<and> times_correct f \<le> times_reviewed f
      \<and> 0 \<le> mastery_level f \<and> mastery_level f \<le> 1
      \<and> (times_reviewed f > 0 \<longrightarrow>
           mastery_level f =
             min 1 ((real_of_int (times_correct f) / real_of_int (times_reviewed f))
                    * (real_of_int (times_reviewed f) / 10))))"

section \<open>\<open>utils.RateLimiter\<close>\<close>

text \<open>
  \<open>datetime.max\<close> is the last microsecond of the year 9999, day 3652059 of the calendar.
  \<open>timedelta(minutes=m)\<close> raises \<open>OverflowError\<close> when its number of days has a magnitude
  above 999999999, and so does a subtraction whose result is not a \<open>datetime\<close>.
\<close>

definition datetime_max :: datetime where
  "datetime_max = 3652059 * 86400000000 - 1"

definition timedelta_minutes :: "int \<Rightarrow> exn + int" where
  "timedelta_minutes m =
     (let us = m * 60000000; days = us div 86400000000
      in if - 999999999 \<le> days \<and> days \<le> 999999999 then Inr us
         else Inl (OverflowError (''days='' @ str_int days @ ''; must have magnitude <= 999999999'')))"

definition datetime_sub :: "datetime \<Rightarrow> int \<Rightarrow> exn + datetime" where
  "datetime_sub t delta =
     (if 0 \<le> t - delta \<and> t - delta \<le> datetime_max then Inr (t - delta)
      else Inl (OverflowError ''date value out of range''))"

text \<open>\<open>self.requests\<close>: a dictionary from the user id to the list of the request times.\<close>

type_synonym requests = "int \<rightharpoonup> datetime list"

definition is_allowed ::
  "datetime \<Rightarrow> requests \<Rightarrow> int \<Rightarrow> int \<Rightarrow> int \<Rightarrow> exn + (bool \<times> requests)" where
  "is_allowed utcnow requests user_id limit window_minutes =
     (case timedelta_minutes window_minutes of
        Inl e \<Rightarrow> Inl e
      | Inr delta \<Rightarrow>
     (case datetime_sub utcnow delta of
        Inl e \<Rightarrow> Inl e
      | Inr window_start \<Rightarrow>
          let recent = (case requests user_id of
                          Some req_times \<Rightarrow> filter (\<lambda>req_time. req_time > window_start) req_times
                        | None \<Rightarrow> []);
              requests = requests(user_id \<mapsto> recent)
          in if int (length recent) < limit
             then Inr (True, requests(user_id \<mapsto> recent @ [utcnow]))
             else Inr (False, requests)))"

definition get_remaining_requests ::
  "datetime \<Rightarrow> requests \<Rightarrow> int \<Rightarrow> int \<Rightarrow> int \<Rightarrow> exn + int" where
  "get_remaining_requests utcnow requests user_id limit window_minutes =
     (case timedelta_minutes window_minutes of
        Inl e \<Rightarrow> Inl e
      | Inr delta \<Rightarrow>
     (case datetime_sub utcnow delta of
        Inl e \<Rightarrow> Inl e
      | Inr window_start \<Rightarrow>
          (case requests user_id of
             Some req_times \<Rightarrow>
               Inr (max 0 (limit - int (length (filter (\<lambda>req_time. req_time > window_start) req_times))))
           | None \<Rightarrow> Inr limit)))"

text \<open>
  A sequence of calls of \<open>is_allowed\<close> with one limit and one window; a call is its clock
  reading and its user. \<open>allowed_times u\<close> lists the clock readings of the calls of the
  user \<open>u\<close> that returned \<open>True\<close>. A call that raises leaves the limiter as it was.
\<close>

fun allowed_times :: "int \<Rightarrow> int \<Rightarrow> int \<Rightarrow> requests \<Rightarrow> (datetime \<times> int) list \<Rightarrow> datetime list" where
  "allowed_times u limit window_minutes requests [] = []"
| "allowed_times u limit window_minutes requests ((utcnow, user_id) # calls) =
     (case is_allowed utcnow requests user_id limit window_minutes of
        Inl e \<Rightarrow> allowed_times u limit window_minutes requests calls
      | Inr (allowed, requests') \<Rightarrow>
          (if allowed \<and> user_id = u then [utcnow] else [])
          @ allowed_times u limit window_minutes requests' calls)"

text \<open>The times of a list inside the window of length \<open>delta\<close> that ends at \<open>t_end\<close>.\<close>

definition in_window :: "int \<Rightarrow> datetime \<Rightarrow> datetime list \<Rightarrow> datetime list" where
  "in_window delta t_end ts = filter (\<lambda>t. t_end - delta < t \<and> t \<le> t_end) ts"

text \<open>A flashcard as \<open>save_flashcards\<close> stores it, with the column defaults.\<close>

definition new_flashcard :: flashcard where
  "new_flashcard = \<lparr>flashcard_user_id = 1, flashcard_question = ''What is a cell?'',
     flashcard_answer = ''The basic unit of life'', flashcard_topic = ''biology'',
     flashcard_difficulty = ''beginner'', times_reviewed = 0, times_correct = 0,
     last_reviewed = None, mastery_level = 0\<rparr>"


text \<open>
  For the proofs about the limiter: the list stored for a user (empty when the user has no
  entry), and the invariant of a run. \<open>A\<close> lists the times allowed so far, \<open>m\<close> is the last
  clock reading: the stored list is what is left of \<open>A\<close> behind some earlier window start,
  and no window holds more than \<open>limit\<close> times of \<open>A\<close>.
\<close>

definition stored :: "requests \<Rightarrow> int \<Rightarrow> datetime list" where
  "stored rq u = (case rq u of Some ts \<Rightarrow> ts | None \<Rightarrow> [])"

definition lim_inv :: "int \<Rightarrow> int \<Rightarrow> int \<Rightarrow> requests \<Rightarrow> datetime list \<Rightarrow> datetime \<Rightarrow> bool" where
  "lim_inv u limit d rq A m =
     ((\<exists>ws. ws \<le> m - d \<and> stored rq u = filter (\<lambda>t. ws < t) A)
      \<and> (\<forall>e. int (length (in_window d e A)) \<le> max 0 limit))"


section \<open>JSON values and more of \<open>str\<close>\<close>

text \<open>A JSON value, as \<open>request.get_json()\<close> returns it and \<open>jsonify\<close> sends it. A
  dictionary lists each key once.\<close>

datatype json =
    JNull
  | JBool bool
  | JNum int
  | JFloat real
  | JStr string
  | JList "json list"
  | JDict "(string \<times> json) list"

text \<open>The truth value of a Python object: \<open>if not v\<close> tests \<open>\<not> truthy v\<close>.\<close>

fun truthy :: "json \<Rightarrow> bool" where
  "truthy JNull = False"
| "truthy (JBool b) = b"
| "truthy (JNum n) = (n \<noteq> 0)"
| "truthy (JFloat r) = (r \<noteq> 0)"
| "truthy (JStr s) = (s \<noteq> [])"
| "truthy (JList xs) = (xs \<noteq> [])"
| "truthy (JDict kvs) = (kvs \<noteq> [])"

text \<open>\<open>data.get(key, default)\<close>: only a dictionary has the method.\<close>

fun type_name :: "json \<Rightarrow> string" where
  "type_name JNull = ''NoneType''"
| "type_name (JBool b) = ''bool''"
| "type_name (JNum n) = ''int''"
| "type_name (JFloat r) = ''float''"
| "type_name (JStr s) = ''str''"
| "type_name (JList xs) = ''list''"
| "type_name (JDict kvs) = ''dict''"

definition dict_get :: "json \<Rightarrow> string \<Rightarrow> json \<Rightarrow> exn + json" where
  "dict_get data key dflt =
     (case data of
        JDict kvs \<Rightarrow> Inr (case map_of kvs key of Some v \<Rightarrow> v | None \<Rightarrow> dflt)
      | _ \<Rightarrow> Inl (no_attribute (type_name data) ''get''))"

text \<open>\<open>str(e)\<close> of an exception: its message; a \<open>KeyError\<close> shows the key in quotes.\<close>

fun str_exn :: "exn \<Rightarrow> string" where
  "str_exn (KeyError k) = [CHR 0x27] @ k @ [CHR 0x27]"
| "str_exn (AttributeError m) = m"
| "str_exn (NameError m) = m"
| "str_exn (LookupError m) = m"
| "str_exn (IndexError m) = m"
| "str_exn (TypeError m) = m"
| "str_exn (ValueError m) = m"
| "str_exn (OverflowError m) = m"
| "str_exn (RecursionError m) = m"
| "str_exn (RequestException m) = m"
| "str_exn (IntegrityError m) = m"
| "str_exn (OperationalError m) = m"
| "str_exn (Exception m) = m"

text \<open>\<open>s.split(sep)\<close> for a separator that is not empty: the pieces between the
  occurrences of \<open>sep\<close>, found from the left without overlap. The second argument is the
  piece read so far, reversed.\<close>

fun split_sep_acc :: "string \<Rightarrow> string \<Rightarrow> string \<Rightarrow> string list" where
  "split_sep_acc sep acc [] = [rev acc]"
| "split_sep_acc sep acc (c # cs) =
     (if sep \<noteq> [] \<and> startswith (c # cs) sep
      then rev acc # split_sep_acc sep [] (drop (length sep - 1) cs)
      else split_sep_acc sep (c # acc) cs)"

definition split_sep :: "string \<Rightarrow> string \<Rightarrow> string list" where
  "split_sep s sep = split_sep_acc sep [] s"

section \<open>The database of \<open>models.py\<close>\<close>

record user =
  user_id :: int
  user_email :: string
  user_password_hash :: string
  user_created_at :: datetime
  user_last_active :: datetime

record conversation =
  conversation_id :: int
  conversation_user_id :: int
  conversation_title :: string
  conversation_created_at :: datetime
  conversation_updated_at :: datetime

record message =
  message_id :: int
  message_conversation_id :: int
  message_content :: string
  message_is_user :: bool
  message_timestamp :: datetime
  message_ai_model :: "string option"
  message_confidence :: "real option"
  message_processing_time :: "real option"

text \<open>The tables hold their rows in the order of insertion.\<close>

record database =
  users :: "user list"
  conversations :: "conversation list"
  messages :: "message list"

text \<open>The next value of an integer primary key.\<close>

definition next_id :: "int list \<Rightarrow> int" where
  "next_id ids = (if ids = [] then 1 else Max (set ids) + 1)"

text \<open>
  What a request meets outside the program. The statements that a handler sends to the
  database are numbered from 0 in the order of the handler's text: \<open>db_fault k\<close> is the
  exception that statement \<open>k\<close> raises, if it does, and \<open>utcnow k\<close> the clock when it runs.
  \<open>hf_client\<close> is \<open>client.text_generation\<close> when the token is configured,
  \<open>local_generator\<close> the text of the local generation pipeline.
\<close>

record app_env =
  db_fault :: "nat \<Rightarrow> exn option"
  utcnow :: "nat \<Rightarrow> datetime"
  isoformat :: "datetime \<Rightarrow> string"
  generate_password_hash :: "string \<Rightarrow> string"
  create_access_token :: "int \<Rightarrow> exn + string"
  hf_client :: "(string \<Rightarrow> exn + string) option"
  local_generator :: "string \<Rightarrow> exn + string"
  elapsed :: real

text \<open>\<open>create_conversation(user_id, title)\<close>; its commit is statement \<open>k\<close>.\<close>

definition create_conversation ::
  "app_env \<Rightarrow> nat \<Rightarrow> database \<Rightarrow> int \<Rightarrow> string \<Rightarrow> (exn + conversation) \<times> database" where
  "create_conversation env k db uid title =
     (case db_fault env k of
        Some e \<Rightarrow> (Inl e, db)
      | None \<Rightarrow>
          let conversation = \<lparr>conversation_id = next_id (map conversation_id (conversations db)),
                conversation_user_id = uid, conversation_title = title,
                conversation_created_at = utcnow env k, conversation_updated_at = utcnow env k\<rparr>
          in (Inr conversation, db\<lparr>conversations := conversations db @ [conversation]\<rparr>))"

text \<open>\<open>add_message(conversation_id, content, is_user, **kwargs)\<close>; its commit is
  statement \<open>k\<close>.\<close>

definition add_message ::
  "app_env \<Rightarrow> nat \<Rightarrow> database \<Rightarrow> int \<Rightarrow> string \<Rightarrow> bool \<Rightarrow> string option \<Rightarrow> real option
     \<Rightarrow> real option \<Rightarrow> (exn + message) \<times> database" where
  "add_message env k db cid content is_user ai_model confidence processing_time =
     (case db_fault env k of
        Some e \<Rightarrow> (Inl e, db)
      | None \<Rightarrow>
          let msg = \<lparr>message_id = next_id (map message_id (messages db)),
                message_conversation_id = cid, message_content = content,
                message_is_user = is_user, message_timestamp = utcnow env k,
                message_ai_model = ai_model, message_confidence = confidence,
                message_processing_time = processing_time\<rparr>
          in (Inr msg, db\<lparr>messages := messages db @ [msg]\<rparr>))"

text \<open>\<open>get_conversation_messages\<close>: the messages of the conversation by ascending
  timestamp; the rows of one timestamp keep the order of insertion.\<close>

definition get_conversation_messages :: "database \<Rightarrow> int \<Rightarrow> message list" where
  "get_conversation_messages db cid =
     sort_key message_timestamp (filter (\<lambda>m. message_conversation_id m = cid) (messages db))"

text \<open>\<open>Conversation.query.filter_by(id=conversation_id, user_id=user_id).first()\<close>\<close>

definition find_conversation :: "database \<Rightarrow> int \<Rightarrow> int \<Rightarrow> conversation option" where
  "find_conversation db cid uid =
     find (\<lambda>c. conversation_id c = cid \<and> conversation_user_id c = uid) (conversations db)"

section \<open>The route handlers of \<open>app.py\<close>\<close>

type_synonym response = "int \<times> json"

text \<open>A request to an endpoint without authentication: what \<open>request.get_json()\<close>
  does with its body.\<close>

record request =
  get_json :: "exn + json"

definition error_response :: "int \<Rightarrow> string \<Rightarrow> response" where
  "error_response status msg = (status, JDict [(''error'', JStr msg)])"

text \<open>
  Every handler has the shape \<open>try: body  except Exception as e: return
  jsonify({"error": str(e)}), 500\<close>. A body returns its response or the exception it
  raises, and the database as it has left it.
\<close>

definition catch_json_500 :: "(exn + response) \<times> database \<Rightarrow> response \<times> database" where
  "catch_json_500 r =
     (case fst r of
        Inr resp \<Rightarrow> (resp, snd r)
      | Inl e \<Rightarrow> (error_response 500 (str_exn e), snd r))"

text \<open>The handler registered with \<open>@app.errorhandler(500)\<close>.\<close>

definition internal_error :: "exn \<Rightarrow> response" where
  "internal_error error = error_response 500 ''Internal server error''"

text \<open>
  \<open>signup\<close>. Statement 0 looks the email up, statement 1 commits the user, statement 2
  commits the first conversation. A value bound as the email that is not a string makes
  statement 0 raise in the model, and a password that is not a string makes
  \<open>generate_password_hash\<close> raise.
\<close>

definition signup_body :: "app_env \<Rightarrow> database \<Rightarrow> request \<Rightarrow> (exn + response) \<times> database" where
  "signup_body env db req =
     (case get_json req of Inl e \<Rightarrow> (Inl e, db) | Inr data \<Rightarrow>
      case dict_get data ''email'' JNull of Inl e \<Rightarrow> (Inl e, db) | Inr email \<Rightarrow>
      case dict_get data ''password'' JNull of Inl e \<Rightarrow> (Inl e, db) | Inr password \<Rightarrow>
      if \<not> truthy email \<or> \<not> truthy password
      then (Inr (error_response 400 ''Email and password required''), db)
      else
        case db_fault env 0 of Some e \<Rightarrow> (Inl e, db) | None \<Rightarrow>
        case email of
          JStr email_str \<Rightarrow>
            (if find (\<lambda>u. user_email u = email_str) (users db) \<noteq> None
             then (Inr (error_response 409 ''User already exists''), db)
             else
               case password of
                 JStr password_str \<Rightarrow>
                   (case db_fault env 1 of Some e \<Rightarrow> (Inl e, db) | None \<Rightarrow>
                    let new_user = \<lparr>user_id = next_id (map user_id (users db)),
                          user_email = email_str,
                          user_password_hash = generate_password_hash env password_str,
                          user_created_at = utcnow env 1, user_last_active = utcnow env 1\<rparr>;
                        db1 = db\<lparr>users := users db @ [new_user]\<rparr>
                    in case create_access_token env (user_id new_user) of
                         Inl e \<Rightarrow> (Inl e, db1)
                       | Inr access_token \<Rightarrow>
                           (case create_conversation env 2 db1 (user_id new_user) ''Welcome Chat'' of
                              (Inl e, db2) \<Rightarrow> (Inl e, db2)
                            | (Inr conversation, db2) \<Rightarrow>
                                (Inr (201, JDict
                                   [(''message'', JStr ''User created successfully''),
                                    (''user'', JDict
                                       [(''id'', JNum (user_id new_user)),
                                        (''email'', JStr (user_email new_user)),
                                        (''created_at'',
                                           JStr (isoformat env (user_created_at new_user)))]),
                                    (''access_token'', JStr access_token),
                                    (''conversation_id'', JNum (conversation_id conversation))]),
                                 db2)))
               | _ \<Rightarrow> (Inl (AttributeError ''object has no attribute encode''), db))
        | _ \<Rightarrow> (Inl (OperationalError ''Error binding parameter''), db))"

definition signup :: "app_env \<Rightarrow> database \<Rightarrow> request \<Rightarrow> response \<times> database" where
  "signup env db req = catch_json_500 (signup_body env db req)"

text \<open>
  The handlers below are behind \<open>@jwt_required()\<close>: the body runs for a request with a
  valid token only, and \<open>uid\<close> is the identity \<open>get_jwt_identity()\<close> reads from it.

  \<open>get_conversation_detail\<close>. Statement 0 is the ownership query, statement 1 reads the
  messages. The route converter \<open><int:conversation_id>\<close> passes an integer.
\<close>

definition message_json :: "app_env \<Rightarrow> message \<Rightarrow> json" where
  "message_json env msg =
     JDict [(''id'', JNum (message_id msg)),
            (''content'', JStr (message_content msg)),
            (''is_user'', JBool (message_is_user msg)),
            (''timestamp'', JStr (isoformat env (message_timestamp msg))),
            (''ai_model'', (case message_ai_model msg of None \<Rightarrow> JNull | Some m \<Rightarrow> JStr m)),
            (''confidence'', (case message_confidence msg of None \<Rightarrow> JNull | Some c \<Rightarrow> JFloat c))]"

definition get_conversation_detail_body ::
  "app_env \<Rightarrow> database \<Rightarrow> int \<Rightarrow> int \<Rightarrow> (exn + response) \<times> database" where
  "get_conversation_detail_body env db uid cid =
     (case db_fault env 0 of Some e \<Rightarrow> (Inl e, db) | None \<Rightarrow>
      case find_conversation db cid uid of
        None \<Rightarrow> (Inr (error_response 404 ''Conversation not found''), db)
      | Some conversation \<Rightarrow>
          (case db_fault env 1 of Some e \<Rightarrow> (Inl e, db) | None \<Rightarrow>
           let msgs = get_conversation_messages db cid;
               messages_data = map (message_json env) msgs
           in (Inr (200, JDict
                 [(''conversation'', JDict
                     [(''id'', JNum (conversation_id conversation)),
                      (''title'', JStr (conversation_title conversation)),
                      (''created_at'', JStr (isoformat env (conversation_created_at conversation))),
                      (''updated_at'', JStr (isoformat env (conversation_updated_at conversation)))]),
                  (''messages'', JList messages_data)]),
               db)))"

definition get_conversation_detail ::
  "app_env \<Rightarrow> database \<Rightarrow> int \<Rightarrow> int \<Rightarrow> response \<times> database" where
  "get_conversation_detail env db uid cid = catch_json_500 (get_conversation_detail_body env db uid cid)"

text \<open>
  \<open>ai_service.answer_any_question(question)\<close> as \<open>chat_with_user\<close> calls it: without
  context and, there, without the client, so the local pipeline writes the answer. The
  function catches every exception.
\<close>

definition answer_any_question :: "app_env \<Rightarrow> string \<Rightarrow> string" where
  "answer_any_question env question =
     (case local_generator env (''Q: '' @ question @ [CHR 0x0A] @ ''A: Let me explain this clearly:'') of
        Inl e \<Rightarrow> ''I'm having trouble answering that question. Could you try rephrasing it?''
      | Inr full_text \<Rightarrow>
          if contains full_text ''A:'' then strip (last (split_sep full_text ''A:''))
          else full_text)"

text \<open>
  \<open>ai_service.chat_with_user(message, conversation_history)\<close>: the value of the key
  \<open>response\<close> of the dictionary it returns. An entry of the history is a message of the
  user (\<open>True\<close>) or of the AI, with its content.
\<close>

definition history_context :: "(bool \<times> string) list \<Rightarrow> string" where
  "history_context history =
     concat (map (\<lambda>(is_user, content).
                    ''User: '' @ (if is_user then content else []) @ [CHR 0x0A]
                    @ ''AI: '' @ (if is_user then [] else content) @ [CHR 0x0A])
                 (drop (length history - 3) history))"

definition chat_with_user :: "app_env \<Rightarrow> string \<Rightarrow> (bool \<times> string) list \<Rightarrow> string" where
  "chat_with_user env msg history =
     (case hf_client env of
        Some text_generation \<Rightarrow>
          (case text_generation (history_context history @ ''User: '' @ msg @ [CHR 0x0A]
                                 @ ''AI: Let me help you with that.'') of
             Inr response \<Rightarrow> response
           | Inl e \<Rightarrow> ''I'm having trouble right now. Could you try asking again?'')
      | None \<Rightarrow> answer_any_question env msg)"

text \<open>
  \<open>send_chat_message\<close>. Statement 0 creates the conversation or checks its ownership,
  statement 1 stores the user's message, statement 2 reads the six latest messages
  (newest first), statement 3 stores the answer, statement 4 commits the new
  \<open>updated_at\<close>. A \<open>conversation_id\<close> that is true and not a number finds no row.
\<close>

definition conversation_title_of :: "string \<Rightarrow> string" where
  "conversation_title_of msg_text =
     (if length msg_text > 50 then take 50 msg_text @ ''...'' else msg_text)"

definition recent_history :: "database \<Rightarrow> int \<Rightarrow> (bool \<times> string) list" where
  "recent_history db cid =
     (let recent_messages =
            take 6 (sort_reverse message_timestamp
                      (filter (\<lambda>m. message_conversation_id m = cid) (messages db)))
      in map (\<lambda>m. (message_is_user m, message_content m)) (rev (butlast recent_messages)))"

definition chat_exchange ::
  "app_env \<Rightarrow> database \<Rightarrow> conversation \<Rightarrow> string \<Rightarrow> (exn + response) \<times> database" where
  "chat_exchange env db conversation msg_text =
     (let cid = conversation_id conversation in
      case add_message env 1 db cid msg_text True None None None of
        (Inl e, db1) \<Rightarrow> (Inl e, db1)
      | (Inr user_message, db1) \<Rightarrow>
      case db_fault env 2 of Some e \<Rightarrow> (Inl e, db1) | None \<Rightarrow>
      let history = recent_history db1 cid;
          ai_response = chat_with_user env msg_text history;
          confidence = 0.7;
          processing_time = elapsed env
      in case add_message env 3 db1 cid ai_response False (Some ''huggingface'')
                (Some confidence) (Some processing_time) of
           (Inl e, db2) \<Rightarrow> (Inl e, db2)
         | (Inr ai_message, db2) \<Rightarrow>
         case db_fault env 4 of Some e \<Rightarrow> (Inl e, db2) | None \<Rightarrow>
         let db3 = db2\<lparr>conversations :=
                     map (\<lambda>c. if conversation_id c = cid
                               then c\<lparr>conversation_updated_at := utcnow env 4\<rparr> else c)
                         (conversations db2)\<rparr>
         in (Inr (200, JDict
               [(''user_message'', JDict
                   [(''id'', JNum (message_id user_message)),
                    (''content'', JStr (message_content user_message)),
                    (''timestamp'', JStr (isoformat env (message_timestamp user_message)))]),
                (''ai_response'', JDict
                   [(''id'', JNum (message_id ai_message)),
                    (''content'', JStr (message_content ai_message)),
                    (''timestamp'', JStr (isoformat env (message_timestamp ai_message))),
                    (''confidence'', JFloat confidence),
                    (''processing_time'', JFloat processing_time)]),
                (''conversation_id'', JNum cid)]),
             db3))"

definition send_chat_message_body ::
  "app_env \<Rightarrow> database \<Rightarrow> int \<Rightarrow> request \<Rightarrow> (exn + response) \<times> database" where
  "send_chat_message_body env db uid req =
     (case get_json req of Inl e \<Rightarrow> (Inl e, db) | Inr data \<Rightarrow>
      case dict_get data ''message'' (JStr []) of Inl e \<Rightarrow> (Inl e, db) | Inr message_value \<Rightarrow>
      case message_value of
        JStr message_raw \<Rightarrow>
          (let msg_text = strip message_raw in
           case dict_get data ''conversation_id'' JNull of Inl e \<Rightarrow> (Inl e, db) | Inr cid_value \<Rightarrow>
           if msg_text = []
           then (Inr (error_response 400 ''Message cannot be empty''), db)
           else if \<not> truthy cid_value then
             (case create_conversation env 0 db uid (conversation_title_of msg_text) of
                (Inl e, db0) \<Rightarrow> (Inl e, db0)
              | (Inr conversation, db0) \<Rightarrow> chat_exchange env db0 conversation msg_text)
           else
             (case db_fault env 0 of Some e \<Rightarrow> (Inl e, db) | None \<Rightarrow>
              case (case cid_value of JNum cid \<Rightarrow> find_conversation db cid uid | _ \<Rightarrow> None) of
                None \<Rightarrow> (Inr (error_response 404 ''Conversation not found''), db)
              | Some conversation \<Rightarrow> chat_exchange env db conversation msg_text))
      | _ \<Rightarrow> (Inl (AttributeError ''object has no attribute strip''), db))"

definition send_chat_message :: "app_env \<Rightarrow> database \<Rightarrow> int \<Rightarrow> request \<Rightarrow> response \<times> database" where
  "send_chat_message env db uid req = catch_json_500 (send_chat_message_body env db uid req)"

section \<open>Sample data\<close>

text \<open>An environment without faults, a database with two users, a conversation each and
  one message, and some requests.\<close>

definition env0 :: app_env where
  "env0 = \<lparr>db_fault = (\<lambda>k. None), utcnow = (\<lambda>k. 63839664000000000 + int k),
     isoformat = (\<lambda>t. ''2024-01-01T00:00:00''), generate_password_hash = (\<lambda>p. ''pbkdf2:'' @ p),
     create_access_token = (\<lambda>i. Inr ''token''), hf_client = None,
     local_generator = (\<lambda>prompt. Inr (prompt @ '' Ask me anything.'')), elapsed = 0.5\<rparr>"

definition db0 :: database where
  "db0 = \<lparr>users =
       [\<lparr>user_id = 1, user_email = ''alice@example.com'', user_password_hash = ''pbkdf2:a'',
          user_created_at = 63839000000000000, user_last_active = 63839000000000000\<rparr>,
        \<lparr>user_id = 2, user_email = ''bob@example.com'', user_password_hash = ''pbkdf2:b'',
          user_created_at = 63839000000000001, user_last_active = 63839000000000001\<rparr>],
     conversations =
       [\<lparr>conversation_id = 1, conversation_user_id = 1, conversation_title = ''Welcome Chat'',
          conversation_created_at = 63839000000000000, conversation_updated_at = 63839000000000000\<rparr>,
        \<lparr>conversation_id = 2, conversation_user_id = 2, conversation_title = ''Welcome Chat'',
          conversation_created_at = 63839000000000001, conversation_updated_at = 63839000000000001\<rparr>],
     messages =
       [\<lparr>message_id = 1, message_conversation_id = 2, message_content = ''my secret'',
          message_is_user = True, message_timestamp = 63839000000000002,
          message_ai_model = None, message_confidence = None, message_processing_time = None\<rparr>]\<rparr>"

definition req_no_password :: request where
  "req_no_password = \<lparr>get_json = Inr (JDict [(''email'', JStr ''alice@example.com'')])\<rparr>"

definition req_taken :: request where
  "req_taken = \<lparr>get_json = Inr (JDict [(''email'', JStr ''alice@example.com''), (''password'', JStr ''pw'')])\<rparr>"


definition req_blank_message :: request where
  "req_blank_message = \<lparr>get_json = Inr (JDict [(''message'', JStr ''  ''), (''conversation_id'', JNum 2)])\<rparr>"

definition req_foreign :: request where
  "req_foreign = \<lparr>get_json = Inr (JDict [(''message'', JStr ''hi''), (''conversation_id'', JNum 2)])\<rparr>"



section \<open>More of Python's built-in operations\<close>

definition endswith :: "string \<Rightarrow> string \<Rightarrow> bool" where
  "endswith s p = startswith (rev s) (rev p)"

text \<open>\<open>s.upper()\<close> for the letters a to z and the lower-case letters of Latin-1 (224 to
  254 without the division sign 247); the other characters of a one-letter answer key
  stay as they are in the model.\<close>

definition upper_char :: "char \<Rightarrow> char" where
  "upper_char c = (let n = (of_char c :: nat) in
     if (97 \<le> n \<and> n \<le> 122) \<or> (224 \<le> n \<and> n \<le> 254 \<and> n \<noteq> 247) then char_of (n - 32) else c)"

text \<open>\<open>xs[i]\<close>: a negative index counts from the end; out of range it raises.\<close>

definition py_index :: "'a list \<Rightarrow> int \<Rightarrow> exn + 'a" where
  "py_index xs i =
     (let n = int (length xs); j = (if i < 0 then i + n else i)
      in if 0 \<le> j \<and> j < n then Inr (xs ! nat j)
         else Inl (IndexError ''list index out of range''))"

text \<open>\<open>xs[:n]\<close>: the first \<open>n\<close> elements; for a negative \<open>n\<close>, all but the last \<open>-n\<close>.\<close>

definition py_take :: "int \<Rightarrow> 'a list \<Rightarrow> 'a list" where
  "py_take n xs = (if n < 0 then take (nat (int (length xs) + n)) xs else take (nat n) xs)"

text \<open>\<open>range(n)\<close> and \<open>range(a, b)\<close>.\<close>

definition py_range :: "int \<Rightarrow> int \<Rightarrow> int list" where
  "py_range a b = [a..b - 1]"

text \<open>\<open>list(dict.fromkeys(xs))\<close>: the elements in the order of their first occurrence.\<close>

fun unique_first :: "'a list \<Rightarrow> 'a list" where
  "unique_first [] = []"
| "unique_first (x # xs) = x # unique_first (filter (\<lambda>y. y \<noteq> x) xs)"

text \<open>\<open>max(xs, key=len)\<close> for a list that is not empty: the first of the longest.\<close>

fun max_by_len :: "'a list \<Rightarrow> 'a list list \<Rightarrow> 'a list" where
  "max_by_len best [] = best"
| "max_by_len best (x # xs) = max_by_len (if length x > length best then x else best) xs"

section \<open>\<open>backend/ai_service.py\<close>: the service and what it meets outside\<close>

text \<open>A flashcard is a dictionary with the keys \<open>question\<close> and \<open>answer\<close>; a quiz question
  one with the keys \<open>question\<close>, \<open>options\<close> and \<open>correct_answer\<close>.\<close>

record card =
  card_question :: string
  card_answer :: string

record quiz_item =
  item_question :: string
  item_options :: "string list"
  item_correct_answer :: int

text \<open>What spaCy reports of a text: the entities with their labels, the noun chunks, the
  tokens with their parts of speech.\<close>

record spacy_doc =
  doc_ents :: "(string \<times> string) list"
  doc_noun_chunks :: "string list"
  doc_tokens :: "(string \<times> string) list"

record http_response =
  status_code :: int
  response_json :: "exn + json"
  response_text :: string

text \<open>
  The state of the service and of its process: the fields of \<open>self\<close> that the methods
  read or write, the number of clock readings and of HTTP requests made so far, and the
  position of the random number generator in its sequence of draws.
\<close>

record ai_state =
  huggingface_api_key :: string
  nlp :: "(string \<Rightarrow> exn + spacy_doc) option"
  stop_words :: "string list"
  last_request_time :: real
  clock_reads :: nat
  posts :: nat
  rng :: nat

text \<open>
  The libraries and the outside world. \<open>HAS_NLTK\<close> is a name the module reads and never
  binds: \<open>None\<close> when nothing else binds it, and reading it raises \<open>NameError\<close>.
  \<open>strip_special_chars\<close> is \<open>re.sub(r'[^\w\s.,!?;:()\-\'\""]', '', \<cdot>)\<close>,
  \<open>find_capitalized\<close> is \<open>re.findall(r'\b[A-Z][a-z]+\b', \<cdot>)\<close> and \<open>find_long_words\<close> is
  \<open>re.findall(r'\b[a-z]{6,}\b', \<cdot>)\<close>. \<open>requests_post k\<close> is the outcome of the HTTP request
  number \<open>k\<close> with the given prompt, \<open>time_time k\<close> the clock reading number \<open>k\<close>, \<open>draw k\<close>
  the random draw number \<open>k\<close>, \<open>recursion_limit\<close> the depth of the Python stack that is
  left, \<open>str_json\<close> is \<open>str\<close> of a decoded JSON value.

  The class calls methods that the file does not define: \<open>create_question_from_sentence\<close>,
  \<open>create_question_from_sentence_analysis\<close>, \<open>extract_definition\<close> and six question
  makers. They are parameters: \<open>None\<close> when the object has no such attribute, as the file
  leaves it, and reading the attribute raises \<open>AttributeError\<close>; otherwise a function of
  the arguments that returns its result or raises. A question maker returns a question or
  a false value (\<open>None\<close>).
\<close>

record ai_env =
  HAS_NLTK :: "bool option"
  sent_tokenize :: "string \<Rightarrow> exn + string list"
  word_tokenize :: "string \<Rightarrow> exn + string list"
  pos_tag :: "string list \<Rightarrow> exn + (string \<times> string) list"
  strip_special_chars :: "string \<Rightarrow> string"
  find_capitalized :: "string \<Rightarrow> string list"
  find_long_words :: "string \<Rightarrow> string list"
  requests_post :: "nat \<Rightarrow> string \<Rightarrow> exn + http_response"
  time_time :: "nat \<Rightarrow> real"
  draw :: "nat \<Rightarrow> nat"
  recursion_limit :: nat
  str_json :: "json \<Rightarrow> string"
  create_question_from_sentence ::
    "(string \<Rightarrow> string \<Rightarrow> string \<Rightarrow> exn + (string \<times> string)) option"
  create_question_from_sentence_analysis ::
    "(string \<Rightarrow> string \<Rightarrow> string \<Rightarrow> exn + quiz_item option) option"
  extract_definition :: "(string \<Rightarrow> string \<Rightarrow> exn + string) option"
  create_identification_question :: "(string \<Rightarrow> string \<Rightarrow> string \<Rightarrow> exn + quiz_item option) option"
  create_true_false_question :: "(string \<Rightarrow> string \<Rightarrow> string \<Rightarrow> exn + quiz_item option) option"
  create_cause_effect_question :: "(string \<Rightarrow> string \<Rightarrow> string \<Rightarrow> exn + quiz_item option) option"
  create_analysis_question :: "(string \<Rightarrow> string \<Rightarrow> string \<Rightarrow> exn + quiz_item option) option"
  create_synthesis_question :: "(string \<Rightarrow> string \<Rightarrow> string \<Rightarrow> exn + quiz_item option) option"
  create_evaluation_question :: "(string \<Rightarrow> string \<Rightarrow> string \<Rightarrow> exn + quiz_item option) option"

section \<open>\<open>AIService\<close>: preprocessing and concept extraction\<close>

text \<open>The loop of \<open>preprocess_content\<close> that adds sentences while the text stays within
  1500 characters, and stops at the first that does not fit.\<close>

fun take_sentences :: "string \<Rightarrow> string list \<Rightarrow> string" where
  "take_sentences content [] = content"
| "take_sentences content (sentence # rest) =
     (if length (content @ sentence) \<le> 1500
      then take_sentences (content @ sentence @ '' '') rest
      else content)"

definition preprocess_content :: "ai_env \<Rightarrow> string \<Rightarrow> exn + string" where
  "preprocess_content env content0 =
     (if content0 = [] then Inr []
      else
        let content = sub_ws_runs (strip content0);
            content = strip_special_chars env content
        in if length content > 1500 then
             (case HAS_NLTK env of
                None \<Rightarrow> Inl (name_not_defined ''HAS_NLTK'')
              | Some has_nltk \<Rightarrow>
                  let sentences =
                        (if has_nltk then
                           (case sent_tokenize env content of
                              Inr ss \<Rightarrow> ss
                            | Inl e \<Rightarrow> split_sep content ''.'')
                         else split_sep content ''.'')
                  in Inr (strip (take_sentences [] sentences)))
           else Inr (strip content))"

definition extract_concepts_simple :: "ai_env \<Rightarrow> ai_state \<Rightarrow> string \<Rightarrow> string list" where
  "extract_concepts_simple env st content =
     (let capitalized = find_capitalized env content;
          long_words = find_long_words env content;
          all_words = capitalized @ long_words;
          filtered_words = filter (\<lambda>word. lower word \<notin> set (stop_words st) \<and> length word > 3)
                             all_words
      in take 15 (unique_first filtered_words))"

text \<open>\<open>word.isalpha()\<close>: below 256 the letters are A to Z, a to z, the code points 170,
  181, 186 and 192 to 255 without 215 and 247.\<close>

definition isalpha_char :: "char \<Rightarrow> bool" where
  "isalpha_char c = (let n = (of_char c :: nat) in
     (65 \<le> n \<and> n \<le> 90) \<or> (97 \<le> n \<and> n \<le> 122) \<or> n = 170 \<or> n = 181 \<or> n = 186
     \<or> (192 \<le> n \<and> n \<le> 214) \<or> (216 \<le> n \<and> n \<le> 246) \<or> (248 \<le> n \<and> n \<le> 255))"

definition isalpha :: "string \<Rightarrow> bool" where
  "isalpha s = (s \<noteq> [] \<and> list_all isalpha_char s)"

text \<open>\<open>Counter(xs).most_common(n)\<close>: the distinct elements by decreasing count, those of
  one count in the order of their first occurrence.\<close>

definition most_common :: "nat \<Rightarrow> 'a list \<Rightarrow> 'a list" where
  "most_common n xs = take n (sort_reverse (\<lambda>x. count_list xs x) (unique_first xs))"

text \<open>\<open>extract_concepts_nltk\<close>: the test of \<open>HAS_NLTK\<close> stands before the \<open>try\<close>, so its
  \<open>NameError\<close> leaves the method.\<close>

definition extract_concepts_nltk :: "ai_env \<Rightarrow> ai_state \<Rightarrow> string \<Rightarrow> exn + string list" where
  "extract_concepts_nltk env st content =
     (case HAS_NLTK env of
        None \<Rightarrow> Inl (name_not_defined ''HAS_NLTK'')
      | Some has_nltk \<Rightarrow>
          if \<not> has_nltk then Inr (extract_concepts_simple env st content)
          else
            (case word_tokenize env (lower content) of
               Inl e \<Rightarrow> Inr (extract_concepts_simple env st content)
             | Inr tokens \<Rightarrow>
            (case pos_tag env tokens of
               Inl e \<Rightarrow> Inr (extract_concepts_simple env st content)
             | Inr tagged \<Rightarrow>
                 let concepts =
                       map fst (filter (\<lambda>(word, pos).
                                  pos \<in> set [''NN'', ''NNS'', ''NNP'', ''NNPS'']
                                  \<and> word \<notin> set (stop_words st)
                                  \<and> length word > 3 \<and> isalpha word) tagged)
                 in Inr (most_common 20 concepts))))"

definition extract_key_concepts :: "ai_env \<Rightarrow> ai_state \<Rightarrow> string \<Rightarrow> string list" where
  "extract_key_concepts env st content =
     (if content = [] then []
      else
        case nlp st of
          Some nlp_model \<Rightarrow>
            (case nlp_model content of
               Inl e \<Rightarrow> extract_concepts_simple env st content
             | Inr doc \<Rightarrow>
                 let concepts =
                       map fst (filter (\<lambda>(text, label).
                                  label \<in> set [''PERSON'', ''ORG'', ''EVENT'', ''LAW'', ''LANGUAGE'',
                                                ''NORP'', ''PRODUCT'']) (doc_ents doc))
                       @ filter (\<lambda>chunk. 2 \<le> length (split_ws chunk) \<and> length (split_ws chunk) \<le> 4)
                           (doc_noun_chunks doc)
                       @ map fst (filter (\<lambda>(text, pos).
                                  pos \<in> set [''NOUN'', ''PROPN''] \<and> length text > 3
                                  \<and> lower text \<notin> set (stop_words st)) (doc_tokens doc));
                     unique_concepts = unique_first concepts
                 in take 25 unique_concepts)
        | None \<Rightarrow>
            (case extract_concepts_nltk env st content of
               Inl e \<Rightarrow> extract_concepts_simple env st content
             | Inr concepts \<Rightarrow> concepts))"

section \<open>\<open>AIService\<close>: the flashcard fallback\<close>

definition generate_contextual_answer ::
  "ai_env \<Rightarrow> string \<Rightarrow> string \<Rightarrow> string \<Rightarrow> string \<Rightarrow> exn + string" where
  "generate_contextual_answer env concept topic content difficulty =
     (case sent_tokenize env content of
        Inl e \<Rightarrow> Inl e
      | Inr sentences \<Rightarrow>
          let relevant_sentences = filter (\<lambda>s. contains (lower s) (lower concept)) sentences
          in if relevant_sentences \<noteq> [] then
               let base_sentence = max_by_len (hd relevant_sentences) (tl relevant_sentences)
               in if difficulty = ''beginner'' then
                    Inr (concept @ '' refers to '' @ lower base_sentence)
                  else if difficulty = ''intermediate'' then
                    Inr (concept @ '' is an important aspect of '' @ topic @ ''. '' @ base_sentence
                         @ '' This concept helps in understanding the broader principles of ''
                         @ topic @ ''.'')
                  else
                    Inr (concept @ '' represents a complex element within '' @ topic @ ''. ''
                         @ base_sentence @ '' Understanding '' @ concept
                         @ '' is crucial for mastering advanced applications and theoretical frameworks in ''
                         @ topic @ ''.'')
             else
               Inr (concept @ '' is a key concept in '' @ topic
                    @ '' that plays an important role in understanding the fundamental principles and applications within this field.''))"

text \<open>\<open>templates[difficulty]\<close> of \<open>generate_flashcards_fallback\<close>; a template is the
  function that \<open>template.format(concept=concept, topic=topic)\<close> computes. \<open>None\<close>: the
  dictionary has no such key.\<close>

definition flashcard_templates :: "string \<Rightarrow> (string \<Rightarrow> string \<Rightarrow> string) list option" where
  "flashcard_templates difficulty =
     (if difficulty = ''beginner'' then Some
        [\<lambda>concept topic. ''What is '' @ concept @ ''?'',
         \<lambda>concept topic. ''Define '' @ concept @ ''.'',
         \<lambda>concept topic. ''What does '' @ concept @ '' mean in the context of '' @ topic @ ''?'',
         \<lambda>concept topic. ''Explain '' @ concept @ '' in simple terms.'',
         \<lambda>concept topic. ''What is the purpose of '' @ concept @ ''?'']
      else if difficulty = ''intermediate'' then Some
        [\<lambda>concept topic. ''How does '' @ concept @ '' relate to '' @ topic @ ''?'',
         \<lambda>concept topic. ''What are the key features of '' @ concept @ ''?'',
         \<lambda>concept topic. ''Why is '' @ concept @ '' important in '' @ topic @ ''?'',
         \<lambda>concept topic. ''What are the main components of '' @ concept @ ''?'',
         \<lambda>concept topic. ''How would you explain '' @ concept @ '' to someone learning '' @ topic @ ''?'']
      else if difficulty = ''advanced'' then Some
        [\<lambda>concept topic. ''Analyze the relationship between '' @ concept
                           @ '' and other elements in '' @ topic @ ''.'',
         \<lambda>concept topic. ''Evaluate the significance of '' @ concept
                           @ '' in the broader context of '' @ topic @ ''.'',
         \<lambda>concept topic. ''What are the implications of '' @ concept
                           @ '' for understanding '' @ topic @ ''?'',
         \<lambda>concept topic. ''How might '' @ concept
                           @ '' be applied in real-world scenarios related to '' @ topic @ ''?'',
         \<lambda>concept topic. ''Compare and contrast '' @ concept
                           @ '' with related concepts in '' @ topic @ ''.'']
      else None)"

text \<open>The first loop of \<open>generate_flashcards_fallback\<close>, over the indices \<open>i\<close>; \<open>cards\<close>
  and \<open>used\<close> are \<open>flashcards\<close> and \<open>used_concepts\<close>.\<close>

fun concept_cards ::
  "ai_env \<Rightarrow> string \<Rightarrow> string \<Rightarrow> string \<Rightarrow> string list \<Rightarrow> int list \<Rightarrow> card list \<Rightarrow> string list
     \<Rightarrow> exn + card list" where
  "concept_cards env content topic difficulty key_concepts [] cards used = Inr cards"
| "concept_cards env content topic difficulty key_concepts (i # rest) cards used =
     (case py_index key_concepts i of
        Inl e \<Rightarrow> Inl e
      | Inr concept \<Rightarrow>
          if concept \<in> set used
          then concept_cards env content topic difficulty key_concepts rest cards used
          else
            (case flashcard_templates difficulty of
               None \<Rightarrow> Inl (KeyError difficulty)
             | Some templates \<Rightarrow>
                 let template = templates ! (nat i mod length templates);
                     question = template concept topic
                 in case generate_contextual_answer env concept topic content difficulty of
                      Inl e \<Rightarrow> Inl e
                    | Inr answer \<Rightarrow>
                        concept_cards env content topic difficulty key_concepts rest
                          (cards @ [\<lparr>card_question = question, card_answer = answer\<rparr>])
                          (concept # used)))"

text \<open>\<open>AIService.rank_sentences_by_importance(sentences, topic)\<close>, the method: another
  function than the one of \<open>utils.py\<close>.\<close>

definition topic_sentence_score :: "string \<Rightarrow> string \<Rightarrow> int" where
  "topic_sentence_score topic sentence =
     (let score = 0;
          len = length (split_ws sentence);
          score = (if 10 \<le> len \<and> len \<le> 25 then score + 2
                   else if 8 \<le> len \<and> len \<le> 30 then score + 1 else score);
          score = (if contains (lower sentence) (lower topic) then score + 3 else score);
          score = (if search_digits sentence then score + 1 else score);
          score = foldl (\<lambda>sc indicator. if contains (lower sentence) indicator then sc + 1 else sc)
                    score [''because'', ''therefore'', ''however'', ''important'', ''significant'',
                           ''main'', ''primary'']
      in score)"

definition rank_sentences_by_importance_for_topic :: "string list \<Rightarrow> string \<Rightarrow> string list" where
  "rank_sentences_by_importance_for_topic sentences topic =
     (let scored_sentences = map (\<lambda>sentence. (sentence, topic_sentence_score topic sentence)) sentences
      in map fst (sort_reverse snd scored_sentences))"

text \<open>The second loop of \<open>generate_flashcards_fallback\<close>; \<open>n\<close> is \<open>len(key_concepts)\<close>.\<close>

fun sentence_cards ::
  "ai_env \<Rightarrow> string \<Rightarrow> string \<Rightarrow> int \<Rightarrow> string list \<Rightarrow> int list \<Rightarrow> card list \<Rightarrow> exn + card list" where
  "sentence_cards env topic difficulty n important_sentences [] cards = Inr cards"
| "sentence_cards env topic difficulty n important_sentences (i # rest) cards =
     (if i - n < int (length important_sentences) then
        (case py_index important_sentences (i - n) of
           Inl e \<Rightarrow> Inl e
         | Inr sentence \<Rightarrow>
             (case create_question_from_sentence env of
                None \<Rightarrow> Inl (no_attribute ''AIService'' ''create_question_from_sentence'')
              | Some method \<Rightarrow>
             (case method sentence topic difficulty of
                Inl e \<Rightarrow> Inl e
              | Inr (question, answer) \<Rightarrow>
                  if question \<noteq> [] \<and> answer \<noteq> []
                  then sentence_cards env topic difficulty n important_sentences rest
                         (cards @ [\<lparr>card_question = question, card_answer = answer\<rparr>])
                  else sentence_cards env topic difficulty n important_sentences rest cards)))
      else sentence_cards env topic difficulty n important_sentences rest cards)"

text \<open>\<open>generate_flashcards_fallback\<close>; \<open>key_concepts\<close> is \<open>None\<close> when the caller leaves
  the argument out.\<close>

definition generate_flashcards_fallback ::
  "ai_env \<Rightarrow> ai_state \<Rightarrow> string \<Rightarrow> string \<Rightarrow> string \<Rightarrow> int \<Rightarrow> string list option
     \<Rightarrow> exn + card list" where
  "generate_flashcards_fallback env st content topic difficulty count' key_concepts0 =
     (let key_concepts =
            (case key_concepts0 of
               None \<Rightarrow> extract_key_concepts env st content
             | Some ks \<Rightarrow> if ks = [] then extract_key_concepts env st content else ks)
      in case concept_cards env content topic difficulty key_concepts
                (py_range 0 (min count' (int (length key_concepts)))) [] [] of
           Inl e \<Rightarrow> Inl e
         | Inr flashcards \<Rightarrow>
             (case sent_tokenize env content of
                Inl e \<Rightarrow> Inl e
              | Inr sentences \<Rightarrow>
                  let important_sentences = rank_sentences_by_importance_for_topic sentences topic
                  in sentence_cards env topic difficulty (int (length key_concepts))
                       important_sentences (py_range (int (length flashcards)) count') flashcards))"

section \<open>\<open>AIService\<close>: validation of flashcards\<close>

definition enhance_answer_quality :: "string \<Rightarrow> string \<Rightarrow> string" where
  "enhance_answer_quality answer difficulty =
     (if difficulty = ''beginner'' then
        (if length answer > 100 then take 100 answer @ ''...'' else answer)
      else if difficulty = ''advanced'' then
        (if length answer < 50
         then answer @ '' This concept involves multiple interconnected elements that require deeper understanding and analysis.''
         else answer)
      else answer)"

text \<open>The body of the loop of \<open>validate_flashcards\<close>: the validated card, or \<open>None\<close>
  where the loop continues without one.\<close>

definition validate_flashcard :: "string \<Rightarrow> card \<Rightarrow> card option" where
  "validate_flashcard difficulty c =
     (if card_question c = [] \<or> card_answer c = [] then None
      else
        let question = strip (card_question c);
            answer = strip (card_answer c)
        in if length question < 10 \<or> length answer < 15 then None
           else if lower question = lower answer then None
           else
             let question = (if \<not> endswith question ''?'' then question @ ''?'' else question);
                 answer = enhance_answer_quality answer difficulty
             in Some \<lparr>card_question = question, card_answer = answer\<rparr>)"

definition validate_flashcards :: "card list \<Rightarrow> string \<Rightarrow> card list" where
  "validate_flashcards flashcards difficulty =
     List.map_filter (validate_flashcard difficulty) flashcards"

section \<open>\<open>AIService\<close>: the Hugging Face path for flashcards\<close>

text \<open>\<open>rate_limit_check\<close> reads the clock, sleeps when the last request is less than
  two seconds old, and stores a second reading. Sleeping changes no state of the model.\<close>

definition rate_limit_check :: "ai_env \<Rightarrow> ai_state \<Rightarrow> ai_state" where
  "rate_limit_check env st =
     st\<lparr>last_request_time := time_time env (clock_reads st + 1),
        clock_reads := clock_reads st + 2\<rparr>"

definition unlines :: "string list \<Rightarrow> string" where
  "unlines ls = concat (map (\<lambda>l. l @ [CHR 0x0A]) ls)"

definition build_flashcard_prompt :: "string \<Rightarrow> string \<Rightarrow> string \<Rightarrow> int \<Rightarrow> exn + string" where
  "build_flashcard_prompt content topic difficulty count' =
     (let difficulty_instructions =
            [(''beginner'', ''Focus on basic definitions and simple concepts. Use clear, simple language.''),
             (''intermediate'', ''Include both definitions and applications. Mix conceptual and practical questions.''),
             (''advanced'', ''Focus on complex relationships, analysis, and synthesis. Include challenging scenarios.'')]
      in case map_of difficulty_instructions difficulty of
           None \<Rightarrow> Inl (KeyError difficulty)
         | Some instruction \<Rightarrow>
             Inr (unlines
               ['''',
                ''Task: Create '' @ str_int count' @ '' educational flashcards about '' @ topic @ ''.'',
                '''',
                ''Content to study: '' @ content,
                '''',
                ''Instructions:'',
                ''- '' @ instruction,
                ''- Each flashcard should test understanding, not just memorization'',
                ''- Questions should be clear and unambiguous'',
                ''- Answers should be comprehensive but concise'',
                ''- Cover different aspects of the topic'',
                '''',
                ''Format:'',
                ''Q: [question]'',
                ''A: [answer]'',
                ''---'',
                '''',
                ''Generate '' @ str_int count' @ '' flashcards now:'']))"

text \<open>The inner loop of \<open>parse_flashcards_response\<close> over the lines of one card.\<close>

datatype card_section = NoSection | QuestionSection | AnswerSection

fun parse_card_lines :: "string list \<Rightarrow> string \<Rightarrow> string \<Rightarrow> card_section \<Rightarrow> string \<times> string" where
  "parse_card_lines [] question answer current_section = (question, answer)"
| "parse_card_lines (line0 # rest) question answer current_section =
     (let line = strip line0
      in if startswith line ''Q:'' then
           parse_card_lines rest (strip (drop 2 line)) answer QuestionSection
         else if startswith line ''A:'' then
           parse_card_lines rest question (strip (drop 2 line)) AnswerSection
         else if current_section = QuestionSection \<and> line \<noteq> [] then
           parse_card_lines rest (question @ '' '' @ line) answer current_section
         else if current_section = AnswerSection \<and> line \<noteq> [] then
           parse_card_lines rest question (answer @ '' '' @ line) current_section
         else parse_card_lines rest question answer current_section)"

definition parse_card_text :: "string \<Rightarrow> card option" where
  "parse_card_text card_text0 =
     (let card_text = strip card_text0
      in if card_text = [] then None
         else
           let (question, answer) =
                 parse_card_lines (split_sep card_text [CHR 0x0A]) [] [] NoSection
           in if question \<noteq> [] \<and> answer \<noteq> [] \<and> length question > 5 \<and> length answer > 10
              then Some \<lparr>card_question = strip question, card_answer = strip answer\<rparr>
              else None)"

text \<open>\<open>parse_flashcards_response\<close>: a text that is not a string makes \<open>split\<close> raise
  inside the \<open>try\<close>, and the method returns the empty list.\<close>

definition parse_flashcards_response :: "json \<Rightarrow> card list" where
  "parse_flashcards_response text =
     (case text of
        JStr s \<Rightarrow> List.map_filter parse_card_text (split_sep s ''---'')
      | _ \<Rightarrow> [])"

text \<open>The text that the handlers of a response of status 200 take from its JSON.\<close>

definition generated_text_of :: "ai_env \<Rightarrow> json \<Rightarrow> exn + json" where
  "generated_text_of env result =
     (case result of
        JList (first # others) \<Rightarrow> dict_get first ''generated_text'' (JStr [])
      | JDict kvs \<Rightarrow> dict_get result ''generated_text'' (JStr [])
      | _ \<Rightarrow> Inr (JStr (str_json env result)))"

text \<open>
  \<open>generate_flashcards_huggingface\<close>. On the status 503 the method calls itself; the
  first argument is the depth of the Python stack that is left, and \<open>RecursionError\<close> is
  raised when it is used up.
\<close>

fun generate_flashcards_huggingface ::
  "nat \<Rightarrow> ai_env \<Rightarrow> ai_state \<Rightarrow> string \<Rightarrow> string \<Rightarrow> string \<Rightarrow> int \<Rightarrow> (exn + card list) \<times> ai_state" where
  "generate_flashcards_huggingface 0 env st content topic difficulty count' =
     (Inl (RecursionError ''maximum recursion depth exceeded''), st)"
| "generate_flashcards_huggingface (Suc depth) env st0 content topic difficulty count' =
     (let st1 = rate_limit_check env st0
      in case build_flashcard_prompt content topic difficulty count' of
           Inl e \<Rightarrow> (Inl e, st1)
         | Inr prompt \<Rightarrow>
             let st = st1\<lparr>posts := posts st1 + 1\<rparr>
             in case requests_post env (posts st1) prompt of
                  Inl e \<Rightarrow> (Inl e, st)
                | Inr response \<Rightarrow>
                    if status_code response = 200 then
                      (case response_json response of
                         Inl e \<Rightarrow> (Inl e, st)
                       | Inr result \<Rightarrow>
                           (case generated_text_of env result of
                              Inl e \<Rightarrow> (Inl e, st)
                            | Inr generated_text \<Rightarrow>
                                let flashcards = parse_flashcards_response generated_text
                                in if flashcards \<noteq> [] then (Inr flashcards, st)
                                   else (Inl (Exception ''Failed to parse AI response''), st)))
                    else if status_code response = 503 then
                      generate_flashcards_huggingface depth env st content topic difficulty count'
                    else
                      (Inl (Exception (''API returned status '' @ str_int (status_code response))),
                       st))"

section \<open>\<open>AIService.generate_flashcards\<close>\<close>

definition api_key_configured :: "ai_state \<Rightarrow> bool" where
  "api_key_configured st =
     (huggingface_api_key st \<noteq> [] \<and> huggingface_api_key st \<noteq> ''hf_your_api_key_here'')"

text \<open>The body of the \<open>try\<close> of \<open>generate_flashcards\<close>.\<close>

definition generate_flashcards_try ::
  "ai_env \<Rightarrow> ai_state \<Rightarrow> string \<Rightarrow> string \<Rightarrow> string \<Rightarrow> int \<Rightarrow> (exn + card list) \<times> ai_state" where
  "generate_flashcards_try env st content topic difficulty count' =
     (case preprocess_content env content of
        Inl e \<Rightarrow> (Inl e, st)
      | Inr processed_content \<Rightarrow>
          let key_concepts = extract_key_concepts env st processed_content;
              generated =
                (if api_key_configured st
                 then generate_flashcards_huggingface (recursion_limit env) env st
                        processed_content topic difficulty count'
                 else (generate_flashcards_fallback env st processed_content topic difficulty
                         count' (Some key_concepts), st))
          in case fst generated of
               Inl e \<Rightarrow> (Inl e, snd generated)
             | Inr flashcards \<Rightarrow>
                 (Inr (py_take count' (validate_flashcards flashcards difficulty)), snd generated))"

definition generate_flashcards ::
  "ai_env \<Rightarrow> ai_state \<Rightarrow> string \<Rightarrow> string \<Rightarrow> string \<Rightarrow> int \<Rightarrow> (exn + card list) \<times> ai_state" where
  "generate_flashcards env st content topic difficulty count' =
     (case generate_flashcards_try env st content topic difficulty count' of
        (Inr flashcards, st') \<Rightarrow> (Inr flashcards, st')
      | (Inl e, st') \<Rightarrow>
          (generate_flashcards_fallback env st' content topic difficulty count' None, st'))"

section \<open>\<open>AIService\<close>: the question fallback\<close>

text \<open>
  \<open>random.shuffle(x)\<close>: for \<open>i\<close> from the last index down to 1, a draw \<open>j\<close> below \<open>i + 1\<close>
  and the exchange of \<open>x[i]\<close> and \<open>x[j]\<close>. The last argument is the position of the
  generator.
\<close>

fun shuffle_steps :: "ai_env \<Rightarrow> nat list \<Rightarrow> 'a list \<Rightarrow> nat \<Rightarrow> 'a list \<times> nat" where
  "shuffle_steps env [] xs r = (xs, r)"
| "shuffle_steps env (i # rest) xs r =
     (let j = draw env r mod (i + 1)
      in shuffle_steps env rest (xs[i := xs ! j, j := xs ! i]) (r + 1))"

definition shuffle :: "ai_env \<Rightarrow> 'a list \<Rightarrow> nat \<Rightarrow> 'a list \<times> nat" where
  "shuffle env xs r = shuffle_steps env (rev [1..<length xs]) xs r"

text \<open>\<open>xs.index(x)\<close> for an element of the list.\<close>

definition index_of :: "'a list \<Rightarrow> 'a \<Rightarrow> int" where
  "index_of xs x = int (length (takeWhile (\<lambda>y. y \<noteq> x) xs))"

text \<open>A question maker gets the concept, the topic and the content (and \<open>info\<close>, which
  is always \<open>None\<close>: \<open>extract_factual_information\<close> ends without a \<open>return\<close>).\<close>

type_synonym question_maker =
  "ai_env \<Rightarrow> ai_state \<Rightarrow> string \<Rightarrow> string \<Rightarrow> string \<Rightarrow> (exn + quiz_item option) \<times> ai_state"

definition create_definition_question :: question_maker where
  "create_definition_question env st concept topic content =
     (let question = ''What is '' @ concept @ '' in the context of '' @ topic @ ''?''
      in case extract_definition env of
           None \<Rightarrow> (Inl (no_attribute ''AIService'' ''extract_definition''), st)
         | Some method \<Rightarrow>
        (case method concept content of
           Inl e \<Rightarrow> (Inl e, st)
         | Inr correct_answer \<Rightarrow>
             let distractors =
                   [''A method used primarily in other fields'',
                    ''An outdated concept no longer relevant to '' @ topic,
                    ''A complex theory that applies only to advanced '' @ topic];
                 options = [correct_answer] @ take 3 distractors;
                 (options, r) = shuffle env options (rng st);
                 correct_index = index_of options correct_answer
             in (Inr (Some \<lparr>item_question = question, item_options = options,
                             item_correct_answer = correct_index\<rparr>),
                 st\<lparr>rng := r\<rparr>)))"

definition create_application_question :: question_maker where
  "create_application_question env st concept topic content =
     (let question = ''How would '' @ concept @ '' be applied in a practical '' @ topic @ '' scenario?'';
          scenarios =
            [''When implementing '' @ concept @ '' in real-world '' @ topic @ '' applications'',
             ''In theoretical discussions about '' @ topic,
             ''Only in academic research about '' @ topic,
             ''Never, as '' @ concept @ '' is purely theoretical'']
      in (Inr (Some \<lparr>item_question = question, item_options = scenarios,
                      item_correct_answer = 0\<rparr>), st))"

definition create_comparison_question :: question_maker where
  "create_comparison_question env st concept topic content =
     (let question = ''How does '' @ concept @ '' compare to other elements in '' @ topic @ ''?'';
          options =
            [concept @ '' provides unique advantages in '' @ topic @ '' applications'',
             concept @ '' is identical to all other '' @ topic @ '' concepts'',
             concept @ '' is less important than any other '' @ topic @ '' element'',
             concept @ '' has no relationship to other '' @ topic @ '' concepts'']
      in (Inr (Some \<lparr>item_question = question, item_options = options,
                      item_correct_answer = 0\<rparr>), st))"

text \<open>A method that the file does not define, as a question maker.\<close>

definition absent_maker ::
  "(string \<Rightarrow> string \<Rightarrow> string \<Rightarrow> exn + quiz_item option) \<Rightarrow> question_maker" where
  "absent_maker method env st concept topic content = (method concept topic content, st)"

text \<open>
  The dictionary \<open>templates\<close> of \<open>generate_questions_fallback\<close>. Building it reads the
  nine attributes in the order of the text, so the first that the object does not have
  raises \<open>AttributeError\<close>, whatever the difficulty.
\<close>

definition question_templates :: "ai_env \<Rightarrow> exn + (string \<times> question_maker list) list" where
  "question_templates env =
     (case create_identification_question env of
        None \<Rightarrow> Inl (no_attribute ''AIService'' ''create_identification_question'')
      | Some identification \<Rightarrow>
     (case create_true_false_question env of
        None \<Rightarrow> Inl (no_attribute ''AIService'' ''create_true_false_question'')
      | Some true_false \<Rightarrow>
     (case create_cause_effect_question env of
        None \<Rightarrow> Inl (no_attribute ''AIService'' ''create_cause_effect_question'')
      | Some cause_effect \<Rightarrow>
     (case create_analysis_question env of
        None \<Rightarrow> Inl (no_attribute ''AIService'' ''create_analysis_question'')
      | Some analysis \<Rightarrow>
     (case create_synthesis_question env of
        None \<Rightarrow> Inl (no_attribute ''AIService'' ''create_synthesis_question'')
      | Some synthesis \<Rightarrow>
     (case create_evaluation_question env of
        None \<Rightarrow> Inl (no_attribute ''AIService'' ''create_evaluation_question'')
      | Some evaluation \<Rightarrow>
          Inr [(''beginner'',
                  [create_definition_question, absent_maker identification,
                   absent_maker true_false]),
               (''intermediate'',
                  [create_application_question, create_comparison_question,
                   absent_maker cause_effect]),
               (''advanced'',
                  [absent_maker analysis, absent_maker synthesis,
                   absent_maker evaluation])]))))))"

text \<open>The loop of \<open>generate_questions_fallback\<close> over the indices \<open>i\<close>.\<close>

fun question_loop ::
  "ai_env \<Rightarrow> string \<Rightarrow> string \<Rightarrow> string \<Rightarrow> question_maker list \<Rightarrow> string list \<Rightarrow> string list
     \<Rightarrow> int list \<Rightarrow> quiz_item list \<Rightarrow> ai_state \<Rightarrow> (exn + quiz_item list) \<times> ai_state" where
  "question_loop env content topic difficulty generators key_concepts sentences [] questions st =
     (Inr questions, st)"
| "question_loop env content topic difficulty generators key_concepts sentences (i # rest) questions st =
     (let generator = generators ! (nat i mod length generators);
          made =
            (if i < int (length key_concepts) then
               (case py_index key_concepts i of
                  Inl e \<Rightarrow> (Inl e, st)
                | Inr concept \<Rightarrow> generator env st concept topic content)
             else if i < int (length sentences) then
               (case py_index sentences (i mod int (length sentences)) of
                  Inl e \<Rightarrow> (Inl e, st)
                | Inr sentence \<Rightarrow>
                    (case create_question_from_sentence_analysis env of
                       None \<Rightarrow>
                         (Inl (no_attribute ''AIService'' ''create_question_from_sentence_analysis''),
                          st)
                     | Some method \<Rightarrow> (method sentence topic difficulty, st)))
             else generator env st topic topic content)
      in case fst made of
           Inl e \<Rightarrow> (Inl e, snd made)
         | Inr question_data \<Rightarrow>
             question_loop env content topic difficulty generators key_concepts sentences rest
               (case question_data of Some q \<Rightarrow> questions @ [q] | None \<Rightarrow> questions)
               (snd made))"

definition generate_questions_fallback ::
  "ai_env \<Rightarrow> ai_state \<Rightarrow> string \<Rightarrow> string \<Rightarrow> string \<Rightarrow> int \<Rightarrow> (exn + quiz_item list) \<times> ai_state" where
  "generate_questions_fallback env st content topic difficulty count' =
     (let key_concepts = extract_key_concepts env st content
      in case sent_tokenize env content of
           Inl e \<Rightarrow> (Inl e, st)
         | Inr sentences \<Rightarrow>
             (case question_templates env of
                Inl e \<Rightarrow> (Inl e, st)
              | Inr templates \<Rightarrow>
             (case map_of templates difficulty of
                None \<Rightarrow> (Inl (KeyError difficulty), st)
              | Some question_generators \<Rightarrow>
                  question_loop env content topic difficulty question_generators key_concepts
                    sentences (py_range 0 count') [] st)))"

section \<open>\<open>AIService\<close>: validation of questions\<close>

definition validate_question :: "quiz_item \<Rightarrow> quiz_item option" where
  "validate_question question =
     (if length (item_options question) \<noteq> 4 then None
      else if \<not> (0 \<le> item_correct_answer question \<and> item_correct_answer question < 4) then None
      else
        let question_text = strip (item_question question);
            options = map strip (item_options question)
        in if length question_text < 10 then None
           else if list_ex (\<lambda>opt. length opt < 3) options then None
           else
             let question_text = (if \<not> endswith question_text ''?''
                                  then question_text @ ''?'' else question_text)
             in Some \<lparr>item_question = question_text, item_options = options,
                       item_correct_answer = item_correct_answer question\<rparr>)"

definition validate_questions :: "quiz_item list \<Rightarrow> string \<Rightarrow> quiz_item list" where
  "validate_questions questions difficulty = List.map_filter validate_question questions"

section \<open>\<open>AIService\<close>: the Hugging Face path for questions\<close>

definition build_question_prompt :: "string \<Rightarrow> string \<Rightarrow> string \<Rightarrow> int \<Rightarrow> exn + string" where
  "build_question_prompt content topic difficulty count' =
     (let difficulty_instructions =
            [(''beginner'', ''Simple multiple choice questions testing basic recall and understanding.''),
             (''intermediate'', ''Questions requiring application and analysis of concepts.''),
             (''advanced'', ''Complex questions involving synthesis, evaluation, and critical thinking.'')]
      in case map_of difficulty_instructions difficulty of
           None \<Rightarrow> Inl (KeyError difficulty)
         | Some instruction \<Rightarrow>
             Inr (unlines
               ['''',
                ''Task: Create '' @ str_int count' @ '' multiple choice questions about '' @ topic @ ''.'',
                '''',
                ''Content: '' @ content,
                '''',
                ''Requirements:'',
                ''- '' @ instruction,
                ''- Each question has exactly 4 options (A, B, C, D)'',
                ''- Only one correct answer per question'',
                ''- Distractors should be plausible but clearly wrong'',
                ''- Questions should test understanding, not just memorization'',
                '''',
                ''Format:'',
                ''Q: [question]'',
                ''A) [option 1]'',
                ''B) [option 2]'',
                ''C) [option 3]'',
                ''D) [option 4]'',
                ''Correct: [A/B/C/D]'',
                ''---'',
                '''',
                ''Generate '' @ str_int count' @ '' questions now:'']))"

text \<open>\<open>s.upper()\<close>; the sharp s becomes two letters. The letters 181 and 255 have their
  upper-case forms above 255 and stay as they are in the model.\<close>

definition upper :: "string \<Rightarrow> string" where
  "upper s = concat (map (\<lambda>c. if c = CHR 0xDF then ''SS'' else [upper_char c]) s)"

text \<open>The inner loop of \<open>parse_questions_response\<close> over the lines of one question;
  \<open>ord\<close> raises \<open>TypeError\<close> for a string that is not one character.\<close>

fun parse_option_lines :: "string list \<Rightarrow> string list \<Rightarrow> int \<Rightarrow> exn + (string list \<times> int)" where
  "parse_option_lines [] options correct_answer = Inr (options, correct_answer)"
| "parse_option_lines (line # rest) options correct_answer =
     (if startswith line ''A)'' \<or> startswith line ''B)'' \<or> startswith line ''C)''
         \<or> startswith line ''D)''
      then parse_option_lines rest (options @ [strip (drop 2 line)]) correct_answer
      else if startswith line ''Correct:'' then
        (case py_index (split_sep line '':'') 1 of
           Inl e \<Rightarrow> Inl e
         | Inr piece \<Rightarrow>
             (case upper (strip piece) of
                [c] \<Rightarrow> parse_option_lines rest options (int (of_char c) - 65)
              | letters \<Rightarrow>
                  Inl (TypeError (''ord() expected a character, but string of length ''
                                  @ str_nat (length letters) @ '' found''))))
      else parse_option_lines rest options correct_answer)"

definition parse_question_text :: "string \<Rightarrow> exn + quiz_item option" where
  "parse_question_text question_text0 =
     (let question_text = strip question_text0
      in if question_text = [] then Inr None
         else
           let lines = filter (\<lambda>line. line \<noteq> [])
                         (map strip (split_sep question_text [CHR 0x0A]))
           in if length lines < 6 then Inr None
              else
                (case find (\<lambda>line. startswith line ''Q:'') lines of
                   None \<Rightarrow> Inr None
                 | Some question_line \<Rightarrow>
                     let question = strip (drop 2 question_line)
                     in case parse_option_lines lines [] 0 of
                          Inl e \<Rightarrow> Inl e
                        | Inr (options, correct_answer) \<Rightarrow>
                            if length options = 4 \<and> 0 \<le> correct_answer \<and> correct_answer < 4
                               \<and> question \<noteq> []
                            then Inr (Some \<lparr>item_question = question, item_options = options,
                                             item_correct_answer = correct_answer\<rparr>)
                            else Inr None))"

text \<open>The outer loop; an exception anywhere makes the method return the empty list.\<close>

fun parse_question_texts :: "string list \<Rightarrow> quiz_item list \<Rightarrow> exn + quiz_item list" where
  "parse_question_texts [] questions = Inr questions"
| "parse_question_texts (t # rest) questions =
     (case parse_question_text t of
        Inl e \<Rightarrow> Inl e
      | Inr None \<Rightarrow> parse_question_texts rest questions
      | Inr (Some q) \<Rightarrow> parse_question_texts rest (questions @ [q]))"

definition parse_questions_response :: "json \<Rightarrow> quiz_item list" where
  "parse_questions_response text =
     (case text of
        JStr s \<Rightarrow>
          (case parse_question_texts (split_sep s ''---'') [] of
             Inl e \<Rightarrow> []
           | Inr questions \<Rightarrow> questions)
      | _ \<Rightarrow> [])"

fun generate_questions_huggingface ::
  "nat \<Rightarrow> ai_env \<Rightarrow> ai_state \<Rightarrow> string \<Rightarrow> string \<Rightarrow> string \<Rightarrow> int
     \<Rightarrow> (exn + quiz_item list) \<times> ai_state" where
  "generate_questions_huggingface 0 env st content topic difficulty count' =
     (Inl (RecursionError ''maximum recursion depth exceeded''), st)"
| "generate_questions_huggingface (Suc depth) env st0 content topic difficulty count' =
     (let st1 = rate_limit_check env st0
      in case build_question_prompt content topic difficulty count' of
           Inl e \<Rightarrow> (Inl e, st1)
         | Inr prompt \<Rightarrow>
             let st = st1\<lparr>posts := posts st1 + 1\<rparr>
             in case requests_post env (posts st1) prompt of
                  Inl e \<Rightarrow> (Inl e, st)
                | Inr response \<Rightarrow>
                    if status_code response = 200 then
                      (case response_json response of
                         Inl e \<Rightarrow> (Inl e, st)
                       | Inr result \<Rightarrow>
                           (case generated_text_of env result of
                              Inl e \<Rightarrow> (Inl e, st)
                            | Inr generated_text \<Rightarrow>
                                let questions = parse_questions_response generated_text
                                in if questions \<noteq> [] then (Inr questions, st)
                                   else (Inl (Exception ''Failed to parse AI response''), st)))
                    else if status_code response = 503 then
                      generate_questions_huggingface depth env st content topic difficulty count'
                    else
                      (Inl (Exception (''API returned status '' @ str_int (status_code response))),
                       st))"

section \<open>\<open>AIService.generate_questions\<close>\<close>

text \<open>The body of the \<open>try\<close> of \<open>generate_questions\<close>.\<close>

definition generate_questions_try ::
  "ai_env \<Rightarrow> ai_state \<Rightarrow> string \<Rightarrow> string \<Rightarrow> string \<Rightarrow> int \<Rightarrow> (exn + quiz_item list) \<times> ai_state" where
  "generate_questions_try env st content topic difficulty count' =
     (case preprocess_content env content of
        Inl e \<Rightarrow> (Inl e, st)
      | Inr processed_content \<Rightarrow>
          let generated =
                (if api_key_configured st
                 then generate_questions_huggingface (recursion_limit env) env st
                        processed_content topic difficulty count'
                 else generate_questions_fallback env st processed_content topic difficulty count')
          in case fst generated of
               Inl e \<Rightarrow> (Inl e, snd generated)
             | Inr questions \<Rightarrow>
                 (Inr (py_take count' (validate_questions questions difficulty)), snd generated))"

definition generate_questions ::
  "ai_env \<Rightarrow> ai_state \<Rightarrow> string \<Rightarrow> string \<Rightarrow> string \<Rightarrow> int \<Rightarrow> (exn + quiz_item list) \<times> ai_state" where
  "generate_questions env st content topic difficulty count' =
     (case generate_questions_try env st content topic difficulty count' of
        (Inr questions, st') \<Rightarrow> (Inr questions, st')
      | (Inl e, st') \<Rightarrow> generate_questions_fallback env st' content topic difficulty count')"

section \<open>Sample data for the AI service\<close>

text \<open>
  \<open>ai_env0\<close> is an environment as the file leaves it: \<open>HAS_NLTK\<close> unbound, the absent
  methods absent, no network; one sentence per text, the capitalised words and the long
  lower-case words of a text of plain words. \<open>ai_env1\<close> is the same with stand-ins for
  the absent methods.
\<close>

definition ai_env0 :: ai_env where
  "ai_env0 = \<lparr>
     HAS_NLTK = None,
     sent_tokenize = (\<lambda>s. Inr [s]),
     word_tokenize = (\<lambda>s. Inr (split_ws s)),
     pos_tag = (\<lambda>ws. Inr (map (\<lambda>w. (w, ''NN'')) ws)),
     strip_special_chars = (\<lambda>s. s),
     find_capitalized = (\<lambda>s. filter (\<lambda>w. isalpha w \<and> upper_char (hd w) = hd w
                                      \<and> tl w \<noteq> [] \<and> lower (tl w) = tl w) (split_ws s)),
     find_long_words = (\<lambda>s. filter (\<lambda>w. isalpha w \<and> lower w = w \<and> 6 \<le> length w) (split_ws s)),
     requests_post = (\<lambda>k prompt. Inl (RequestException ''connection refused'')),
     time_time = (\<lambda>k. real k),
     draw = (\<lambda>k. k),
     recursion_limit = 1000,
     str_json = (\<lambda>j. []),
     create_question_from_sentence = None,
     create_question_from_sentence_analysis = None,
     extract_definition = None,
     create_identification_question = None,
     create_true_false_question = None,
     create_cause_effect_question = None,
     create_analysis_question = None,
     create_synthesis_question = None,
     create_evaluation_question = None\<rparr>"

definition ai_env1 :: ai_env where
  "ai_env1 = ai_env0\<lparr>
     create_question_from_sentence := Some (\<lambda>sentence topic difficulty.
        Inr (''What does the text say about '' @ topic @ ''?'', sentence)),
     create_question_from_sentence_analysis := Some (\<lambda>sentence topic difficulty. Inr None),
     extract_definition := Some (\<lambda>concept content. Inr (''The '' @ concept @ '' of the text'')),
     create_identification_question := Some (\<lambda>concept topic content. Inr None),
     create_true_false_question := Some (\<lambda>concept topic content. Inr None),
     create_cause_effect_question := Some (\<lambda>concept topic content. Inr None),
     create_analysis_question := Some (\<lambda>concept topic content. Inr None),
     create_synthesis_question := Some (\<lambda>concept topic content. Inr None),
     create_evaluation_question := Some (\<lambda>concept topic content. Inr None)\<rparr>"

text \<open>The service after \<open>__init__\<close> without an API key in the environment.\<close>

definition ai_state0 :: ai_state where
  "ai_state0 = \<lparr>huggingface_api_key = ''hf_your_api_key_here'', nlp = None, stop_words = [],
     last_request_time = 0, clock_reads = 0, posts = 0, rng = 0\<rparr>"

section \<open>\<open>src/ai_service.py\<close>: \<open>generate_dynamic_flashcards\<close>\<close>

text \<open>\<open>sep.join(xs)\<close> and \<open>s.replace(old, new)\<close> for an \<open>old\<close> that is not empty.\<close>

fun join :: "string \<Rightarrow> string list \<Rightarrow> string" where
  "join sep [] = []"
| "join sep [x] = x"
| "join sep (x # y # ys) = x @ sep @ join sep (y # ys)"

definition py_replace :: "string \<Rightarrow> string \<Rightarrow> string \<Rightarrow> string" where
  "py_replace s old new = join new (split_sep s old)"

text \<open>A flashcard of this module, with all the keys of its dictionary.\<close>

record dynamic_card =
  dyn_id :: string
  dyn_question :: string
  dyn_answer :: string
  dyn_confidence :: real
  dyn_topic :: string
  dyn_created_at :: string
  dyn_difficulty :: string

text \<open>
  The globals of the process that the function reads and writes: whether the question
  answering pipeline is loaded (\<open>qa_pipeline\<close> is not \<open>None\<close>), the position of the random
  number generator, the number of clock readings.
\<close>

record gen_state =
  qa_pipeline_loaded :: bool
  gen_rng :: nat
  gen_clock :: nat

text \<open>
  The libraries: \<open>load_qa_pipeline\<close> is the exception that building the pipeline raises,
  if it does; \<open>qa_model question context\<close> is the answer and the score (when the result
  has one) or the exception of the pipeline; \<open>gen_draw k\<close> is the random draw number \<open>k\<close>;
  \<open>timestamp_text k\<close> and \<open>now_isoformat k\<close> are \<open>datetime.now().timestamp()\<close> as text and
  \<open>datetime.now().isoformat()\<close> at the clock reading number \<open>k\<close>.
\<close>

record gen_env =
  load_qa_pipeline :: "exn option"
  qa_model :: "string \<Rightarrow> string \<Rightarrow> exn + (string \<times> real option)"
  gen_draw :: "nat \<Rightarrow> nat"
  timestamp_text :: "nat \<Rightarrow> string"
  now_isoformat :: "nat \<Rightarrow> string"

definition get_qa_pipeline :: "gen_env \<Rightarrow> gen_state \<Rightarrow> (exn + unit) \<times> gen_state" where
  "get_qa_pipeline env st =
     (if \<not> qa_pipeline_loaded st then
        (case load_qa_pipeline env of
           Some e \<Rightarrow> (Inl e, st)
         | None \<Rightarrow> (Inr (), st\<lparr>qa_pipeline_loaded := True\<rparr>))
      else (Inr (), st))"

text \<open>
  \<open>random.sample(population, k)\<close> for a population of at most 21 elements: a copy of the
  population is the pool; step \<open>i\<close> draws \<open>j\<close> below \<open>n - i\<close>, takes \<open>pool[j]\<close> and moves the
  last element of the pool that is still free to the place \<open>j\<close>.
\<close>

fun sample_steps :: "gen_env \<Rightarrow> nat \<Rightarrow> nat list \<Rightarrow> 'a list \<Rightarrow> nat \<Rightarrow> 'a list \<times> nat" where
  "sample_steps env n [] pool r = ([], r)"
| "sample_steps env n (i # rest) pool r =
     (let j = gen_draw env r mod (n - i);
          taken = pool ! j;
          (others, r') = sample_steps env n rest (pool[j := pool ! (n - i - 1)]) (r + 1)
      in (taken # others, r'))"

definition random_sample :: "gen_env \<Rightarrow> 'a list \<Rightarrow> int \<Rightarrow> nat \<Rightarrow> exn + ('a list \<times> nat)" where
  "random_sample env population k r =
     (if k < 0 \<or> int (length population) < k
      then Inl (ValueError ''Sample larger than population or is negative'')
      else Inr (sample_steps env (length population) [0..<nat k] population r))"

definition dynamic_question_templates :: "string list list" where
  "dynamic_question_templates =
     [[''What is {topic}?'', ''Define {topic}?'', ''Explain {topic} in simple terms''],
      [''What are the main components of {topic}?'', ''What elements make up {topic}?'',
       ''List the key parts of {topic}''],
      [''How does {topic} work?'', ''Explain the process of {topic}'',
       ''Describe how {topic} functions''],
      [''Give an example of {topic}'', ''Where do we see {topic} in real life?'',
       ''How is {topic} used?''],
      [''What are the benefits of {topic}?'', ''Why is {topic} important?'',
       ''What advantages does {topic} provide?''],
      [''What happens if {topic} fails?'', ''What are the consequences of {topic}?'',
       ''What problems does {topic} solve?''],
      [''Compare {topic} with similar concepts'', ''How is {topic} different from alternatives?'',
       ''What makes {topic} unique?''],
      [''What's the easiest way to remember {topic}?'', ''Create a mnemonic for {topic}'',
       ''What's a simple way to explain {topic}?'']]"

text \<open>The identifier \<open>fc_<timestamp>_<random.randint(1000, 9999)>\<close>: one clock reading
  and one draw.\<close>

definition flashcard_id :: "gen_env \<Rightarrow> gen_state \<Rightarrow> string" where
  "flashcard_id env st =
     ''fc_'' @ timestamp_text env (gen_clock st) @ ''_''
     @ str_nat (1000 + gen_draw env (gen_rng st) mod 9000)"

text \<open>The loop over the selected groups of templates.\<close>

fun dynamic_cards ::
  "gen_env \<Rightarrow> string \<Rightarrow> string \<Rightarrow> string list list \<Rightarrow> dynamic_card list \<Rightarrow> gen_state
     \<Rightarrow> dynamic_card list \<times> gen_state" where
  "dynamic_cards env content topic [] flashcards st = (flashcards, st)"
| "dynamic_cards env content topic (template_group # rest) flashcards st0 =
     (let question_template =
            template_group ! (gen_draw env (gen_rng st0) mod length template_group);
          st = st0\<lparr>gen_rng := gen_rng st0 + 1\<rparr>;
          question =
            (if topic \<noteq> [] \<and> contains question_template ''{topic}''
             then py_replace question_template ''{topic}'' topic
             else py_replace question_template ''{topic}'' ''this concept'');
          stamped = st\<lparr>gen_rng := gen_rng st + 1, gen_clock := gen_clock st + 2\<rparr>;
          new_card =
            (case qa_model env question content of
               Inr (answer, score) \<Rightarrow>
                 let confidence = (case score of Some sc \<Rightarrow> sc | None \<Rightarrow> 0)
                 in \<lparr>dyn_id = flashcard_id env st, dyn_question = question, dyn_answer = answer,
                      dyn_confidence = confidence, dyn_topic = topic,
                      dyn_created_at = now_isoformat env (gen_clock st + 1),
                      dyn_difficulty = (if confidence > 0.5 then ''intermediate'' else ''beginner'')\<rparr>
             | Inl e \<Rightarrow>
                 \<lparr>dyn_id = flashcard_id env st, dyn_question = question,
                    dyn_answer = ''This relates to the key concepts in ''
                                 @ (if topic \<noteq> [] then topic else ''the material''),
                    dyn_confidence = 0.3, dyn_topic = topic,
                    dyn_created_at = now_isoformat env (gen_clock st + 1),
                    dyn_difficulty = ''beginner''\<rparr>)
      in dynamic_cards env content topic rest (flashcards @ [new_card]) stamped)"

text \<open>\<open>generate_dynamic_flashcards\<close> returns the list of flashcards, or on an exception
  the dictionary with the one key \<open>error\<close>, here its message on the left.\<close>

definition generate_dynamic_flashcards ::
  "gen_env \<Rightarrow> gen_state \<Rightarrow> string \<Rightarrow> string \<Rightarrow> int \<Rightarrow> (string + dynamic_card list) \<times> gen_state" where
  "generate_dynamic_flashcards env st0 content topic count' =
     (case get_qa_pipeline env st0 of
        (Inl e, st) \<Rightarrow> (Inl (''Flashcard generation failed: '' @ str_exn e), st)
      | (Inr u, st) \<Rightarrow>
          (case random_sample env dynamic_question_templates
                  (min count' (int (length dynamic_question_templates))) (gen_rng st) of
             Inl e \<Rightarrow> (Inl (''Flashcard generation failed: '' @ str_exn e), st)
           | Inr (selected_templates, r) \<Rightarrow>
               (case dynamic_cards env content topic selected_templates [] (st\<lparr>gen_rng := r\<rparr>) of
                  (flashcards, st') \<Rightarrow> (Inr flashcards, st'))))"

definition gen_env0 :: gen_env where
  "gen_env0 = \<lparr>load_qa_pipeline = None,
     qa_model = (\<lambda>question context. Inr (''the smallest unit of life'', Some 0.9)),
     gen_draw = (\<lambda>k. k),
     timestamp_text = (\<lambda>k. ''1704067200.'' @ str_nat k),
     now_isoformat = (\<lambda>k. ''2024-01-01T00:00:00.00000'' @ str_nat k)\<rparr>"

definition gen_state0 :: gen_state where
  "gen_state0 = \<lparr>qa_pipeline_loaded = False, gen_rng = 0, gen_clock = 0\<rparr>"

text \<open>Two states of the service with the same configuration: the same NLP tools and the
  same answer to whether an API key is configured.\<close>

definition same_config :: "ai_state \<Rightarrow> ai_state \<Rightarrow> bool" where
  "same_config st st' =
     (nlp st' = nlp st \<and> stop_words st' = stop_words st
      \<and> api_key_configured st' = api_key_configured st)"


section \<open>Facts about \<open>strip\<close>\<close>

lemma dropWhile_fixed: "xs = [] \<or> \<not> P (hd xs) \<Longrightarrow> dropWhile P xs = xs"
  by (cases xs) auto

lemma hd_dropWhile_not: "dropWhile P xs = [] \<or> \<not> P (hd (dropWhile P xs))"
  by (induction xs) auto

lemma rev_dropWhile_rev_prefix: "\<exists>n. rev (dropWhile P (rev t)) = take n t"
proof -
  have "dropWhile P (rev t) = drop (length (takeWhile P (rev t))) (rev t)"
    by (rule dropWhile_eq_drop)
  then have "rev (dropWhile P (rev t)) = take (length t - length (takeWhile P (rev t))) t"
    by (simp add: rev_drop)
  then show ?thesis by blast
qed

lemma hd_trim_right:
  "rev (dropWhile P (rev t)) = [] \<or> hd (rev (dropWhile P (rev t))) = hd t"
proof -
  obtain n where n: "rev (dropWhile P (rev t)) = take n t"
    using rev_dropWhile_rev_prefix by blast
  show ?thesis
  proof (cases "n = 0 \<or> t = []")
    case True
    then show ?thesis using n by auto
  next
    case False
    then have "hd (take n t) = hd t" by (cases t; cases n) auto
    then show ?thesis using n by simp
  qed
qed

lemma dropWhile_trimmed:
  "dropWhile P (rev (dropWhile P (rev (dropWhile P xs)))) = rev (dropWhile P (rev (dropWhile P xs)))"
proof (cases "dropWhile P xs = []")
  case True
  show ?thesis unfolding True by simp
next
  case False
  define t where "t = dropWhile P xs"
  from False hd_dropWhile_not [of P xs] have nP: "\<not> P (hd t)"
    unfolding t_def by blast
  from hd_trim_right [of P t]
  have "rev (dropWhile P (rev t)) = [] \<or> \<not> P (hd (rev (dropWhile P (rev t))))"
    using nP by (elim disjE) (simp_all only: not_False_eq_True simp_thms)
  then have "dropWhile P (rev (dropWhile P (rev t))) = rev (dropWhile P (rev t))"
    by (rule dropWhile_fixed)
  then show ?thesis unfolding t_def .
qed

lemma strip_idem: "strip (strip s) = strip s"
  unfolding strip_def by (simp add: dropWhile_trimmed)

lemma strip_no_leading_space: "strip s = [] \<or> \<not> isspace (hd (strip s))"
proof -
  have "dropWhile isspace (strip s) = strip s"
    unfolding strip_def by (rule dropWhile_trimmed)
  with hd_dropWhile_not [of isspace "strip s"] show ?thesis by simp
qed

lemma strip_no_trailing_space: "strip s = [] \<or> \<not> isspace (last (strip s))"
proof -
  have "rev (strip s) = dropWhile isspace (rev (dropWhile isspace s))"
    by (simp add: strip_def)
  with hd_dropWhile_not [of isspace "rev (dropWhile isspace s)"]
  have "rev (strip s) = [] \<or> \<not> isspace (hd (rev (strip s)))" by simp
  then show ?thesis by (auto simp: hd_rev)
qed

section \<open>Sentence ranking\<close>

lemma strip_Nil: "strip [] = []"
  by (simp add: strip_def)

lemma calculate_sentence_importance_strip:
  "calculate_sentence_importance h w (strip s) = calculate_sentence_importance h w s"
proof (cases "strip s = []")
  case True
  then show ?thesis by (simp add: calculate_sentence_importance_def)
next
  case False
  then have "s \<noteq> []" using strip_Nil by blast
  with False show ?thesis
    by (simp add: calculate_sentence_importance_def strip_idem)
qed

lemma scored_snd:
  "\<forall>p \<in> set (map (\<lambda>s. (strip s, calculate_sentence_importance h w s)) xs).
     snd p = calculate_sentence_importance h w (fst p)"
  by (simp add: calculate_sentence_importance_strip)

lemma sort_reverse_desc: "sorted_wrt (\<lambda>p q. key q \<le> key p) (sort_reverse key xs)"
proof -
  have "sorted (map key (sort_key key (rev xs)))" by (rule sorted_sort_key)
  then have "sorted_wrt (\<lambda>p q. key p \<le> key q) (sort_key key (rev xs))"
    by (simp add: sorted_map)
  then show ?thesis
    unfolding sort_reverse_def by (simp add: sorted_wrt_rev)
qed

lemma mset_sort_reverse: "mset (sort_reverse key xs) = mset xs"
  by (simp add: sort_reverse_def)

lemma set_sort_reverse: "set (sort_reverse key xs) = set xs"
  by (simp add: sort_reverse_def)

text \<open>
  Claim C8. For every list of sentences, \<open>rank_sentences_by_importance\<close> returns a
  permutation of the stripped sentences of the input that are not blank, in the order of
  non-increasing \<open>calculate_sentence_importance\<close>, and the empty list for the empty list.
\<close>

theorem rank_sentences_sorted_filter:
  "mset (rank_sentences_by_importance h w ss) = mset (map strip (filter (\<lambda>s. strip s \<noteq> []) ss))
   \<and> sorted_wrt (\<lambda>a b. calculate_sentence_importance h w b \<le> calculate_sentence_importance h w a)
        (rank_sentences_by_importance h w ss)
   \<and> rank_sentences_by_importance h w [] = []"
proof -
  define sc where "sc = map (\<lambda>s. (strip s, calculate_sentence_importance h w s))
                  (filter (\<lambda>s. strip s \<noteq> []) ss)"
  have r: "rank_sentences_by_importance h w ss = map fst (sort_reverse snd sc)"
    by (simp add: rank_sentences_by_importance_def sc_def sort_reverse_def)
  have "mset (map fst (sort_reverse snd sc)) = mset (map fst sc)"
    by (simp add: mset_sort_reverse)
  also have "map fst sc = map strip (filter (\<lambda>s. strip s \<noteq> []) ss)"
    by (simp add: sc_def comp_def)
  finally have perm: "mset (rank_sentences_by_importance h w ss) =
      mset (map strip (filter (\<lambda>s. strip s \<noteq> []) ss))"
    by (simp add: r)
  have snd_eq: "\<forall>p \<in> set (sort_reverse snd sc). snd p = calculate_sentence_importance h w (fst p)"
    unfolding set_sort_reverse sc_def by (rule scored_snd)
  have "sorted_wrt (\<lambda>p q. snd q \<le> snd p) (sort_reverse snd sc)"
    by (rule sort_reverse_desc)
  then have "sorted_wrt (\<lambda>p q. calculate_sentence_importance h w (fst q)
                 \<le> calculate_sentence_importance h w (fst p)) (sort_reverse snd sc)"
    by (rule sorted_wrt_mono_rel [rotated]) (use snd_eq in auto)
  then have srt: "sorted_wrt (\<lambda>a b. calculate_sentence_importance h w b
                 \<le> calculate_sentence_importance h w a) (rank_sentences_by_importance h w ss)"
    by (simp add: r sorted_wrt_map)
  have "rank_sentences_by_importance h w [] = []"
    by (simp add: rank_sentences_by_importance_def)
  with perm srt show ?thesis by blast
qed

lemma rank_sentences_blank_dropped:
  "rank_sentences_by_importance False (\<lambda>s. Inr []) [''  x '', ''   ''] = [''x'']"
  by (simp add: rank_sentences_by_importance_def sort_reverse_def strip_def isspace_def)

theorem rank_sentences_sorted_filter_witness:
  "mset [''x''] = mset (map strip (filter (\<lambda>s. strip s \<noteq> []) [''  x '', ''   '']))
   \<and> rank_sentences_by_importance False (\<lambda>s. Inr []) [''  x '', ''   ''] = [''x'']"
  using rank_sentences_sorted_filter [of False "\<lambda>s. Inr []" "[''  x '', ''   '']"]
  by (simp only: rank_sentences_blank_dropped)

section \<open>Text cleaning\<close>

text \<open>
  Claim C10. \<open>clean_extracted_text\<close> is meant to be idempotent and to leave no two
  consecutive whitespace characters. On the text \<open>price\<close>, space, code point 163 (the pound sign), space, \<open>5\<close>, the whitespace runs are collapsed before the pound sign is removed, so the
  result keeps two consecutive spaces, and cleaning the result again changes it.
\<close>

theorem clean_extracted_text_pound_sign:
  "clean_extracted_text (''price '' @ [CHR 0xA3] @ '' 5'') = ''price  5''
   \<and> clean_extracted_text ''price  5'' = ''price 5''"
  by (simp add: clean_extracted_text_def strip_def sub_non_printable_def printable_def isspace_def)

section \<open>Flashcard review metrics\<close>

lemma update_flashcard_performance_consistent:
  assumes "update_flashcard_performance t c tbl k b = Inr (tbl', r)"
    and "tbl i = Some f0" and "metrics_consistent f0"
  shows "\<exists>f. tbl' i = Some f \<and> metrics_consistent f"
  using assms
  by (auto simp: update_flashcard_performance_def Let_def metrics_consistent_def
      split: option.splits if_splits)

lemma review_all_consistent:
  "tbl i = Some f0 \<Longrightarrow> metrics_consistent f0 \<Longrightarrow>
   \<exists>f. review_all tbl rs i = Some f \<and> metrics_consistent f"
proof (induction rs arbitrary: tbl f0)
  case Nil
  then show ?case by simp
next
  case (Cons r rs)
  obtain t c k b where r: "r = (t, c, k, b)" by (cases r) auto
  show ?case
  proof (cases "update_flashcard_performance t c tbl k b")
    case (Inl e)
    with Cons r show ?thesis by simp
  next
    case (Inr p)
    obtain tbl' res where p: "p = (tbl', res)" by (cases p) auto
    from update_flashcard_performance_consistent [OF Inr [unfolded p] Cons.prems]
    obtain f where f: "tbl' i = Some f" "metrics_consistent f" by blast
    have "\<exists>g. review_all tbl' rs i = Some g \<and> metrics_consistent g"
      using f by (rule Cons.IH)
    with Inr p r show ?thesis by simp
  qed
qed

text \<open>
  Claim C9. From a flashcard with \<open>times_reviewed = 0\<close>, \<open>times_correct = 0\<close> and
  \<open>mastery_level = 0.0\<close>, every sequence of calls of \<open>update_flashcard_performance\<close>
  (on this or on other flashcards, with commits that succeed or fail) leaves the flashcard
  with \<open>0 \<le> times_correct \<le> times_reviewed\<close>, \<open>0 \<le> mastery_level \<le> 1\<close> and, when
  \<open>times_reviewed > 0\<close>, the mastery level
  \<open>min(1.0, (times_correct / times_reviewed) * (times_reviewed / 10))\<close>.
\<close>

theorem flashcard_metrics_consistent:
  assumes "table k = Some f0"
    and "times_reviewed f0 = 0" and "times_correct f0 = 0" and "mastery_level f0 = 0"
  shows "\<exists>f. review_all table reviews k = Some f \<and> metrics_consistent f"
proof -
  from assms(2-4) have "metrics_consistent f0"
    by (simp add: metrics_consistent_def)
  with assms(1) show ?thesis by (rule review_all_consistent)
qed

lemma two_reviews:
  "map_option (\<lambda>f. (times_reviewed f, times_correct f, mastery_level f))
     (review_all [5 \<mapsto> new_flashcard] [(100, None, 5, True), (200, None, 5, False)] 5)
   = Some (2, 1, 1 / 10)"
  by (simp add: update_flashcard_performance_def new_flashcard_def Let_def)

theorem flashcard_metrics_consistent_witness:
  "(\<exists>f. review_all [5 \<mapsto> new_flashcard] [(100, None, 5, True), (200, None, 5, False)] 5 = Some f
        \<and> metrics_consistent f)
   \<and> map_option (\<lambda>f. (times_reviewed f, times_correct f, mastery_level f))
        (review_all [5 \<mapsto> new_flashcard] [(100, None, 5, True), (200, None, 5, False)] 5)
      = Some (2, 1, 1 / 10)"
  using flashcard_metrics_consistent [of "[5 \<mapsto> new_flashcard]" 5 new_flashcard
           "[(100, None, 5, True), (200, None, 5, False)]"] two_reviews
  by (simp add: new_flashcard_def)
section \<open>The rate limiter\<close>

lemma filter_gt_filter_gt:
  "(ws::int) \<le> ws' \<Longrightarrow> filter (\<lambda>t. ws' < t) (filter (\<lambda>t. ws < t) A) = filter (\<lambda>t. ws' < t) A"
  by (induction A) auto

lemma in_window_append: "in_window d e (A @ B) = in_window d e A @ in_window d e B"
  by (simp add: in_window_def)

lemma in_window_le_filter:
  assumes "ws \<le> e - d"
  shows "length (in_window d e A) \<le> length (filter (\<lambda>t. ws < t) A)"
proof -
  have "in_window d e A = filter (\<lambda>t. e - d < t \<and> t \<le> e) (filter (\<lambda>t. ws < t) A)"
    using assms by (induction A) (auto simp: in_window_def)
  then show ?thesis by (metis length_filter_le)
qed

lemma is_allowed_Inr:
  assumes "is_allowed now rq v limit w = Inr (b, rq')"
  shows "\<exists>d. timedelta_minutes w = Inr d \<and> d = w * 60000000 \<and>
     (let recent = filter (\<lambda>t. now - d < t) (stored rq v) in
       b = (int (length recent) < limit) \<and>
       rq' = rq(v \<mapsto> (if b then recent @ [now] else recent)))"
  using assms
  by (auto simp: is_allowed_def timedelta_minutes_def datetime_sub_def stored_def Let_def
      split: sum.splits if_splits option.splits)

lemma lim_inv_step:
  assumes inv: "lim_inv u limit d rq A m"
    and call: "is_allowed now rq v limit w = Inr (b, rq')"
    and d: "d = w * 60000000" and pos: "0 < d" and mono: "m \<le> now"
  shows "lim_inv u limit d rq' (A @ (if b \<and> v = u then [now] else [])) now"
proof -
  from is_allowed_Inr [OF call] d
  have b: "b = (int (length (filter (\<lambda>t. now - d < t) (stored rq v))) < limit)"
    and rq': "rq' = rq(v \<mapsto> (if b then filter (\<lambda>t. now - d < t) (stored rq v) @ [now]
                               else filter (\<lambda>t. now - d < t) (stored rq v)))"
    by (auto simp: Let_def)
  from inv obtain ws where ws: "ws \<le> m - d" "stored rq u = filter (\<lambda>t. ws < t) A"
    and cnt: "\<And>e. int (length (in_window d e A)) \<le> max 0 limit"
    by (auto simp: lim_inv_def)
  show ?thesis
  proof (cases "v = u")
    case False
    then have "stored rq' u = stored rq u" by (simp add: rq' stored_def)
    with ws mono cnt False show ?thesis
      by (auto simp: lim_inv_def intro!: exI [of _ ws])
  next
    case True
    let ?S1 = "filter (\<lambda>t. now - d < t) (stored rq u)"
    have "ws \<le> now - d" using ws(1) mono by simp
    then have "filter (\<lambda>t. now - d < t) (filter (\<lambda>t. ws < t) A) = filter (\<lambda>t. now - d < t) A"
      by (rule filter_gt_filter_gt)
    then have S1: "?S1 = filter (\<lambda>t. now - d < t) A"
      by (simp only: ws(2))
    show ?thesis
    proof (cases b)
      case False
      with True have "stored rq' u = ?S1" by (simp add: rq' stored_def)
      with S1 cnt False show ?thesis
        by (auto simp: lim_inv_def intro!: exI [of _ "now - d"])
    next
      case b: True
      with True have st: "stored rq' u = ?S1 @ [now]" by (simp add: rq' stored_def)
      have f: "filter (\<lambda>t. now - d < t) (A @ [now]) = ?S1 @ [now]"
        using S1 pos by simp
      have lt: "int (length ?S1) < limit" using b True \<open>b = _\<close> by simp
      have "int (length (in_window d e (A @ [now]))) \<le> max 0 limit" for e
      proof (cases "e - d < now \<and> now \<le> e")
        case False
        then have "in_window d e (A @ [now]) = in_window d e A"
          by (auto simp: in_window_def)
        with cnt show ?thesis by simp
      next
        case True
        then have "now - d \<le> e - d" by simp
        then have "length (in_window d e A) \<le> length (filter (\<lambda>t. now - d < t) A)"
          by (rule in_window_le_filter)
        with S1 lt have "int (length (in_window d e A)) < limit" by simp
        moreover have "length (in_window d e (A @ [now])) \<le> length (in_window d e A) + 1"
          by (simp add: in_window_def)
        ultimately show ?thesis by linarith
      qed
      with st f b True show ?thesis
        by (auto simp: lim_inv_def intro!: exI [of _ "now - d"])
    qed
  qed
qed


lemma lim_inv_mono: "lim_inv u limit d rq A m \<Longrightarrow> m \<le> m' \<Longrightarrow> lim_inv u limit d rq A m'"
  unfolding lim_inv_def
proof (elim conjE exE, intro conjI)
  fix ws
  assume "m \<le> m'" "ws \<le> m - d" "stored rq u = filter ((<) ws) A"
  then have "ws \<le> m' - d \<and> stored rq u = filter ((<) ws) A" by simp
  then show "\<exists>ws\<le>m' - d. stored rq u = filter ((<) ws) A" by blast
qed

lemma allowed_times_window:
  assumes "0 < w"
  shows "lim_inv u limit (w * 60000000) rq A m \<Longrightarrow> sorted (map fst calls) \<Longrightarrow>
    \<forall>c \<in> set calls. m \<le> fst c \<Longrightarrow>
    int (length (in_window (w * 60000000) e (A @ allowed_times u limit w rq calls))) \<le> max 0 limit"
proof (induction calls arbitrary: rq A m)
  case Nil
  then show ?case by (simp add: lim_inv_def)
next
  case (Cons c calls)
  obtain now v where c: "c = (now, v)" by (cases c) auto
  from Cons.prems c have mono: "m \<le> now" and srt: "sorted (map fst calls)"
    and later: "\<forall>c \<in> set calls. now \<le> fst c" by auto
  show ?case
  proof (cases "is_allowed now rq v limit w")
    case (Inl ex)
    have "lim_inv u limit (w * 60000000) rq A now"
      using Cons.prems(1) mono by (rule lim_inv_mono)
    from Cons.IH [OF this srt later] Inl c show ?thesis by simp
  next
    case (Inr p)
    obtain b rq' where p: "p = (b, rq')" by (cases p) auto
    have "lim_inv u limit (w * 60000000) rq' (A @ (if b \<and> v = u then [now] else [])) now"
      using Cons.prems(1) Inr [unfolded p] _ _ mono
      by (rule lim_inv_step) (use assms in auto)
    from Cons.IH [OF this srt later] Inr p c show ?thesis by simp
  qed
qed

lemma lim_inv_init: "lim_inv u limit d Map.empty [] m"
  by (auto simp: lim_inv_def stored_def in_window_def intro: exI [of _ "m - d"])

lemma in_window_nonpos: "d \<le> 0 \<Longrightarrow> in_window d e A = []"
  by (induction A) (auto simp: in_window_def)

lemma get_remaining_requests_nonneg:
  "0 \<le> limit \<Longrightarrow> get_remaining_requests now rq u limit w = Inr r \<Longrightarrow> 0 \<le> r"
  by (auto simp: get_remaining_requests_def split: sum.splits option.splits)

text \<open>
  Claim C7, as amended. For every user, limit and window length, among the calls of
  \<open>is_allowed\<close> of a sequence whose clock readings do not decrease, the calls of the user
  that return \<open>True\<close> with a timestamp inside a window of \<open>window_minutes\<close> (the window
  that ends at any instant \<open>t_end\<close>, its start excluded) number at most \<open>limit\<close>, and none
  returns \<open>True\<close> when the limit is negative; and for a limit that is not negative
  \<open>get_remaining_requests\<close> never returns a negative number.
\<close>

theorem rate_limiter_enforces_limit:
  assumes "sorted (map fst calls)"
  shows "int (length (in_window (window_minutes * 60000000) t_end
               (allowed_times u limit window_minutes Map.empty calls))) \<le> max 0 limit
         \<and> (0 \<le> limit \<longrightarrow>
              (\<forall>utcnow requests r.
                 get_remaining_requests utcnow requests u limit window_minutes = Inr r \<longrightarrow> 0 \<le> r))"
proof -
  have "int (length (in_window (window_minutes * 60000000) t_end
               (allowed_times u limit window_minutes Map.empty calls))) \<le> max 0 limit"
  proof (cases "0 < window_minutes")
    case False
    then show ?thesis by (simp add: in_window_nonpos mult_le_0_iff)
  next
    case True
    obtain m where m: "\<forall>c \<in> set calls. m \<le> fst c"
    proof (cases calls)
      case Nil
      then show ?thesis using that by simp
    next
      case (Cons c cs)
      with assms have "\<forall>c' \<in> set calls. fst c \<le> fst c'" by auto
      then show ?thesis using that by blast
    qed
    from allowed_times_window [OF True lim_inv_init assms m, where u = u and limit = limit and e = t_end]
    show ?thesis by simp
  qed
  then show ?thesis using get_remaining_requests_nonneg by blast
qed


lemmas limiter_defs = is_allowed_def get_remaining_requests_def timedelta_minutes_def
  datetime_sub_def datetime_max_def in_window_def Let_def

lemma clock_back_run:
  "allowed_times 7 2 1 Map.empty
      [(63839664000000000, 7), (63839664000000000, 7), (63839664060000000, 7), (63839664000000000, 7)]
   = [63839664000000000, 63839664000000000, 63839664060000000, 63839664000000000]"
  by (simp add: limiter_defs)

text \<open>
  Claim C7 as stated fails twice. For a user without recorded requests
  \<open>get_remaining_requests\<close> returns the limit itself, here \<open>-1\<close>. And when the clock steps
  back, requests recorded earlier have been dropped already: with the limit 2 and a window
  of one minute, three calls at the same instant return \<open>True\<close>.
\<close>

theorem rate_limiter_counterexample:
  "get_remaining_requests 63839664000000000 Map.empty 7 (- 1) 60 = Inr (- 1)
   \<and> length (in_window (1 * 60000000) 63839664000000000
        (allowed_times 7 2 1 Map.empty
           [(63839664000000000, 7), (63839664000000000, 7), (63839664060000000, 7),
            (63839664000000000, 7)])) = 3"
  by (simp add: clock_back_run) (simp add: limiter_defs)

lemma three_calls_run:
  "allowed_times 7 2 1 Map.empty
      [(63839664000000000, 7), (63839664000000001, 7), (63839664000000002, 7)]
   = [63839664000000000, 63839664000000001]"
  by (simp add: limiter_defs)

theorem rate_limiter_enforces_limit_witness:
  "sorted (map fst [(63839664000000000 :: int, 7 :: int), (63839664000000001, 7), (63839664000000002, 7)])
   \<and> allowed_times 7 2 1 Map.empty
        [(63839664000000000, 7), (63839664000000001, 7), (63839664000000002, 7)]
      = [63839664000000000, 63839664000000001]
   \<and> int (length (in_window (1 * 60000000) 63839664000000002
        (allowed_times 7 2 1 Map.empty
           [(63839664000000000, 7), (63839664000000001, 7), (63839664000000002, 7)]))) \<le> max 0 2
   \<and> get_remaining_requests 63839664000000003
        [7 \<mapsto> [63839664000000000, 63839664000000001]] 7 2 1 = Inr 0"
proof -
  have s: "sorted (map fst [(63839664000000000 :: int, 7 :: int), (63839664000000001, 7), (63839664000000002, 7)])"
    by simp
  have g: "get_remaining_requests 63839664000000003
        [7 \<mapsto> [63839664000000000, 63839664000000001]] 7 2 1 = Inr 0"
    by (simp add: limiter_defs)
  from rate_limiter_enforces_limit [OF s, of 1 63839664000000002 7 2] three_calls_run s g
  show ?thesis by blast
qed
section \<open>The route handlers\<close>







lemma find_None_iff: "find P xs = None \<longleftrightarrow> \<not> (\<exists>x \<in> set xs. P x)"
  by (induction xs) auto

text \<open>
  Claim C4, as amended. For every signup request whose email already belongs to an existing
  user, the database is left as it was (no user and no conversation is added); the answer
  is 409 with a JSON error when the request has a password that is not empty and the lookup
  does not raise, 400 when the password is missing or empty, and the 500 of the handler
  when the lookup raises.
\<close>

theorem signup_existing_email:
  assumes "get_json req = Inr (JDict kvs)"
    and "map_of kvs ''email'' = Some (JStr e)"
    and "e \<in> set (map user_email (users db))"
  shows "signup env db req =
     ((if e = [] \<or> \<not> truthy (case map_of kvs ''password'' of Some v \<Rightarrow> v | None \<Rightarrow> JNull)
       then error_response 400 ''Email and password required''
       else case db_fault env 0 of
              Some ex \<Rightarrow> error_response 500 (str_exn ex)
            | None \<Rightarrow> error_response 409 ''User already exists''),
      db)"
proof -
  from assms(3) have "find (\<lambda>u. user_email u = e) (users db) \<noteq> None"
    by (auto simp: find_None_iff)
  with assms(1,2) show ?thesis
    by (auto simp: signup_def signup_body_def catch_json_500_def dict_get_def
        split: option.splits)
qed

text \<open>
  Claim C4 as stated fails: a signup request with the email of an existing user and no
  password is answered with 400, by the check that comes before the lookup.
\<close>

theorem signup_existing_email_counterexample:
  "''alice@example.com'' \<in> set (map user_email (users db0))
   \<and> fst (signup env0 db0 req_no_password) = error_response 400 ''Email and password required''"
  by (simp add: db0_def env0_def req_no_password_def signup_def signup_body_def
      catch_json_500_def dict_get_def error_response_def)

theorem signup_existing_email_witness:
  "''alice@example.com'' \<in> set (map user_email (users db0))
   \<and> signup env0 db0 req_taken = (error_response 409 ''User already exists'', db0)"
proof -
  have m: "''alice@example.com'' \<in> set (map user_email (users db0))"
    by (simp add: db0_def)
  from signup_existing_email [of req_taken
         "[(''email'', JStr ''alice@example.com''), (''password'', JStr ''pw'')]"
         "''alice@example.com''" db0 env0, OF _ _ m]
  have "signup env0 db0 req_taken = (error_response 409 ''User already exists'', db0)"
    by (simp add: req_taken_def env0_def)
  with m show ?thesis by simp
qed

text \<open>
  Claim C6, as amended. When the conversation id is not the id of a conversation of the
  authenticated user, \<open>get_conversation_detail\<close> answers 404 with the error
  \<open>Conversation not found\<close>, and so does \<open>send_chat_message\<close> for a request with a message
  that is not blank and that id, not zero; when the ownership query itself raises the answer
  is the 500 of the handler. The database is left as it was and the answer carries the
  error only.
\<close>

theorem conversation_not_owned:
  assumes "\<not> (\<exists>c \<in> set (conversations db). conversation_id c = cid \<and> conversation_user_id c = uid)"
  shows "get_conversation_detail env db uid cid =
           ((case db_fault env 0 of
               Some ex \<Rightarrow> error_response 500 (str_exn ex)
             | None \<Rightarrow> error_response 404 ''Conversation not found''), db)
     \<and> (get_json req = Inr (JDict kvs) \<and> map_of kvs ''message'' = Some (JStr m)
          \<and> strip m \<noteq> [] \<and> map_of kvs ''conversation_id'' = Some (JNum cid) \<and> cid \<noteq> 0
        \<longrightarrow> send_chat_message env db uid req =
           ((case db_fault env 0 of
               Some ex \<Rightarrow> error_response 500 (str_exn ex)
             | None \<Rightarrow> error_response 404 ''Conversation not found''), db))"
proof -
  from assms have none: "find_conversation db cid uid = None"
    by (auto simp: find_conversation_def find_None_iff)
  have g: "get_conversation_detail env db uid cid =
           ((case db_fault env 0 of
               Some ex \<Rightarrow> error_response 500 (str_exn ex)
             | None \<Rightarrow> error_response 404 ''Conversation not found''), db)"
    using none
    by (simp add: get_conversation_detail_def get_conversation_detail_body_def
        catch_json_500_def split: option.splits)
  have s: "send_chat_message env db uid req =
           ((case db_fault env 0 of
               Some ex \<Rightarrow> error_response 500 (str_exn ex)
             | None \<Rightarrow> error_response 404 ''Conversation not found''), db)"
    if "get_json req = Inr (JDict kvs)" "map_of kvs ''message'' = Some (JStr m)"
       "strip m \<noteq> []" "map_of kvs ''conversation_id'' = Some (JNum cid)" "cid \<noteq> 0"
    using that none
    by (simp add: send_chat_message_def send_chat_message_body_def dict_get_def
        catch_json_500_def split: option.splits)
  from g s show ?thesis by blast
qed

text \<open>
  Claim C6 as stated fails: a post with a blank message into the conversation of another
  user is answered with 400, by the check that comes before the ownership query.
\<close>

theorem conversation_not_owned_counterexample:
  "find_conversation db0 2 1 = None
   \<and> fst (send_chat_message env0 db0 1 req_blank_message)
       = error_response 400 ''Message cannot be empty''"
  by (simp add: db0_def env0_def req_blank_message_def send_chat_message_def
      send_chat_message_body_def catch_json_500_def dict_get_def error_response_def
      find_conversation_def strip_def isspace_def)

theorem conversation_not_owned_witness:
  "get_conversation_detail env0 db0 1 2 = (error_response 404 ''Conversation not found'', db0)
   \<and> send_chat_message env0 db0 1 req_foreign = (error_response 404 ''Conversation not found'', db0)"
proof -
  have a: "\<not> (\<exists>c \<in> set (conversations db0). conversation_id c = 2 \<and> conversation_user_id c = 1)"
    by (simp add: db0_def)
  have st: "strip ''hi'' \<noteq> []"
    by (simp add: strip_def isspace_def)
  from conversation_not_owned [OF a, of env0 req_foreign
         "[(''message'', JStr ''hi''), (''conversation_id'', JNum 2)]" "''hi''"] st
  show ?thesis
    by (simp add: req_foreign_def env0_def)
qed



section \<open>The generators of the AI service are bounded\<close>

lemma length_py_take: "0 \<le> n \<Longrightarrow> int (length (py_take n xs)) \<le> n"
  by (simp add: py_take_def)

lemma length_py_range: "length (py_range a b) = nat (b - a)"
  by (simp add: py_range_def)

lemma concept_cards_length:
  "concept_cards env content topic difficulty ks is cards used = Inr out \<Longrightarrow>
   length out \<le> length cards + length is"
proof (induction "is" arbitrary: cards used)
  case Nil
  then show ?case by simp
next
  case (Cons i rest)
  from Cons.prems show ?case
    by (auto simp: Let_def split: sum.splits if_splits option.splits dest!: Cons.IH)
qed

lemma sentence_cards_length:
  "sentence_cards env topic difficulty n imp is cards = Inr out \<Longrightarrow>
   length out \<le> length cards + length is"
proof (induction "is" arbitrary: cards)
  case Nil
  then show ?case by simp
next
  case (Cons i rest)
  from Cons.prems show ?case
    by (auto simp: Let_def split: sum.splits if_splits prod.splits option.splits dest!: Cons.IH)
qed

lemma generate_flashcards_fallback_length:
  assumes "0 \<le> n" and "generate_flashcards_fallback env st content topic difficulty n ks = Inr out"
  shows "int (length out) \<le> n"
proof -
  define kc where "kc = (case ks of None \<Rightarrow> extract_key_concepts env st content
      | Some k \<Rightarrow> if k = [] then extract_key_concepts env st content else k)"
  from assms(2) obtain cards sentences where
    c: "concept_cards env content topic difficulty kc (py_range 0 (min n (int (length kc)))) [] [] = Inr cards"
    and s: "sentence_cards env topic difficulty (int (length kc))
              (rank_sentences_by_importance_for_topic sentences topic)
              (py_range (int (length cards)) n) cards = Inr out"
    by (auto simp: generate_flashcards_fallback_def Let_def kc_def split: sum.splits)
  from concept_cards_length [OF c] have "length cards \<le> nat (min n (int (length kc)))"
    by (simp add: length_py_range)
  with assms(1) have le: "int (length cards) \<le> n" by linarith
  from sentence_cards_length [OF s]
  have "length out \<le> length cards + nat (n - int (length cards))"
    by (simp add: length_py_range)
  with le show ?thesis by linarith
qed

lemma question_loop_length:
  "question_loop env content topic difficulty gens ks ss is qs st = (Inr out, st') \<Longrightarrow>
   length out \<le> length qs + length is"
proof (induction "is" arbitrary: qs st)
  case Nil
  then show ?case by simp
next
  case (Cons i rest)
  from Cons.prems show ?case
    by (auto simp: Let_def split: sum.splits option.splits dest!: Cons.IH)
qed

lemma generate_questions_fallback_length:
  assumes "0 \<le> n" and "generate_questions_fallback env st content topic difficulty n = (Inr out, st')"
  shows "int (length out) \<le> n"
proof -
  from assms(2) obtain gens ks ss where
    "question_loop env content topic difficulty gens ks ss (py_range 0 n) [] st = (Inr out, st')"
    by (auto simp: generate_questions_fallback_def Let_def split: sum.splits option.splits)
  from question_loop_length [OF this] assms(1) show ?thesis
    by (simp add: length_py_range)
qed

text \<open>
  Claim C2. For every content, topic, difficulty and count that is not negative, whatever
  the service, the libraries and the network do: a list that \<open>generate_flashcards\<close>
  returns has at most \<open>count\<close> flashcards and a list that \<open>generate_questions\<close> returns
  has at most \<open>count\<close> questions.
\<close>

theorem generators_bounded:
  assumes "0 \<le> n"
  shows "(fst (generate_flashcards env st content topic difficulty n) = Inr cards
            \<longrightarrow> int (length cards) \<le> n)
       \<and> (fst (generate_questions env st content topic difficulty n) = Inr questions
            \<longrightarrow> int (length questions) \<le> n)"
proof (intro conjI impI)
  assume r: "fst (generate_flashcards env st content topic difficulty n) = Inr cards"
  show "int (length cards) \<le> n"
  proof (cases "fst (generate_flashcards_try env st content topic difficulty n)")
    case (Inr cs)
    with r have "cs = cards"
      by (auto simp: generate_flashcards_def split: prod.splits sum.splits)
    with Inr obtain xs where "cards = py_take n xs"
      by (auto simp: generate_flashcards_try_def Let_def split: sum.splits)
    with assms show ?thesis by (simp add: length_py_take)
  next
    case (Inl e)
    with r obtain st' where
      "generate_flashcards_fallback env st' content topic difficulty n None = Inr cards"
      by (auto simp: generate_flashcards_def split: prod.splits sum.splits)
    with assms show ?thesis by (rule generate_flashcards_fallback_length)
  qed
next
  assume r: "fst (generate_questions env st content topic difficulty n) = Inr questions"
  show "int (length questions) \<le> n"
  proof (cases "fst (generate_questions_try env st content topic difficulty n)")
    case (Inr qs)
    with r have "qs = questions"
      by (auto simp: generate_questions_def split: prod.splits sum.splits)
    with Inr obtain xs where "questions = py_take n xs"
      by (auto simp: generate_questions_try_def Let_def split: sum.splits)
    with assms show ?thesis by (simp add: length_py_take)
  next
    case (Inl e)
    with r obtain st' where
      "fst (generate_questions_fallback env st' content topic difficulty n) = Inr questions"
      by (auto simp: generate_questions_def split: prod.splits sum.splits)
    then obtain st' st'' where
      "generate_questions_fallback env st' content topic difficulty n = (Inr questions, st'')"
      by (metis prod.collapse)
    with assms show ?thesis by (rule generate_questions_fallback_length)
  qed
qed


section \<open>Which generators are stateless\<close>

lemma extract_key_concepts_config:
  assumes "same_config st st'"
  shows "extract_key_concepts env st' content = extract_key_concepts env st content"
proof -
  from assms have a: "nlp st' = nlp st" and b: "stop_words st' = stop_words st"
    by (simp_all add: same_config_def)
  show ?thesis
    unfolding extract_key_concepts_def extract_concepts_nltk_def extract_concepts_simple_def a b
    by (rule refl)
qed

lemma generate_flashcards_fallback_config:
  assumes "same_config st st'"
  shows "generate_flashcards_fallback env st' content topic difficulty n ks
   = generate_flashcards_fallback env st content topic difficulty n ks"
  unfolding generate_flashcards_fallback_def extract_key_concepts_config [OF assms]
  by (rule refl)

lemma generate_flashcards_try_fallback:
  assumes "\<not> api_key_configured st"
  shows "generate_flashcards_try env st content topic difficulty n =
     ((case preprocess_content env content of
         Inl e \<Rightarrow> Inl e
       | Inr processed_content \<Rightarrow>
           (case generate_flashcards_fallback env st processed_content topic difficulty n
                   (Some (extract_key_concepts env st processed_content)) of
              Inl e \<Rightarrow> Inl e
            | Inr flashcards \<Rightarrow> Inr (py_take n (validate_flashcards flashcards difficulty)))),
      st)"
proof (cases "preprocess_content env content")
  case (Inl e)
  then show ?thesis by (simp add: generate_flashcards_try_def)
next
  case (Inr p)
  show ?thesis
  proof (cases "generate_flashcards_fallback env st p topic difficulty n
                  (Some (extract_key_concepts env st p))")
    case (Inl e)
    with Inr assms show ?thesis by (simp add: generate_flashcards_try_def Let_def)
  next
    case r: (Inr cs)
    with Inr assms show ?thesis by (simp add: generate_flashcards_try_def Let_def)
  qed
qed


lemma generate_flashcards_without_key:
  assumes "\<not> api_key_configured st"
  shows "generate_flashcards env st content topic difficulty n =
     ((case fst (generate_flashcards_try env st content topic difficulty n) of
         Inr flashcards \<Rightarrow> Inr flashcards
       | Inl e \<Rightarrow> generate_flashcards_fallback env st content topic difficulty n None),
      st)"
proof -
  obtain r where r: "generate_flashcards_try env st content topic difficulty n = (r, st)"
    using generate_flashcards_try_fallback [OF assms] by blast
  show ?thesis
    by (cases r) (simp_all add: generate_flashcards_def r)
qed

lemma generate_flashcards_try_config:
  assumes "\<not> api_key_configured st" and "same_config st st'"
  shows "fst (generate_flashcards_try env st' content topic difficulty n)
       = fst (generate_flashcards_try env st content topic difficulty n)"
proof -
  from assms have k: "\<not> api_key_configured st'" by (simp add: same_config_def)
  show ?thesis
    unfolding generate_flashcards_try_fallback [OF assms(1)] generate_flashcards_try_fallback [OF k]
      generate_flashcards_fallback_config [OF assms(2)] extract_key_concepts_config [OF assms(2)]
    by simp
qed

text \<open>
  Claim C5, as amended. With the API key absent or at its placeholder,
  \<open>generate_flashcards\<close> leaves the state of the service and of the process (the time of
  the last request, the clock readings, the HTTP requests, the position of the random number
  generator) as it was, and its result is the same from every state with the same
  configuration: it depends on the arguments and the NLP tools only.
\<close>

theorem flashcard_fallback_stateless:
  assumes "\<not> api_key_configured st"
  shows "snd (generate_flashcards env st content topic difficulty n) = st
     \<and> (same_config st st' \<longrightarrow>
          fst (generate_flashcards env st' content topic difficulty n)
          = fst (generate_flashcards env st content topic difficulty n))"
proof (intro conjI impI)
  show "snd (generate_flashcards env st content topic difficulty n) = st"
    by (simp add: generate_flashcards_without_key [OF assms])
next
  assume c: "same_config st st'"
  with assms have k: "\<not> api_key_configured st'" by (simp add: same_config_def)
  show "fst (generate_flashcards env st' content topic difficulty n)
          = fst (generate_flashcards env st content topic difficulty n)"
    unfolding generate_flashcards_without_key [OF assms] generate_flashcards_without_key [OF k]
      generate_flashcards_try_config [OF assms c] generate_flashcards_fallback_config [OF c]
    by simp
qed


end
